theory Spec2Isabelle
  imports
    Complex_Main
    "HOL-Library.AList"
    "HOL-Library.Char_ord"
    "HOL-Library.List_Lexorder"
    "HOL-Library.Product_Lexorder"
    "HOL-Library.Multiset"
begin

section \<open>The Hashstack loan-state engine (src/hashstack.py)\<close>

text \<open>
  The module replays Hashstack events into a store of loan entities and derives risk
  figures from the store. Python exceptions are values of \<open>error\<close>; a method that may
  raise returns \<open>error + 'a\<close> with \<open>Inl\<close> for the exception. Mutation of the state object
  is explicit state passing. A finite \<open>decimal.Decimal\<close> is the rational number it
  denotes, and \<open>+\<close>, \<open>*\<close> and \<open>/\<close> are the operations of the default decimal context,
  which round their result. The calls to \<open>logging.info\<close> write nothing to the state and
  are left out.
\<close>

subsection \<open>Exceptions and results\<close>

datatype error =
    KeyError | IndexError | ValueError | TypeError | AssertionError
  | DivisionByZero | InvalidOperation | Overflow

type_synonym 'a result = "error + 'a"

definition rbind :: "'a result \<Rightarrow> ('a \<Rightarrow> 'b result) \<Rightarrow> 'b result" where
  "rbind m f = (case m of Inl e \<Rightarrow> Inl e | Inr x \<Rightarrow> f x)"

definition py_assert :: "bool \<Rightarrow> unit result" where
  "py_assert b = (if b then Inr () else Inl AssertionError)"

subsection \<open>Arithmetic of the decimal context\<close>

text \<open>
  The module never changes the decimal context, so every operation runs in the default
  one: precision 28, rounding half to even, exponents from \<open>Emin = -999999\<close> to
  \<open>Emax = 999999\<close>, traps on \<open>InvalidOperation\<close>, \<open>DivisionByZero\<close> and \<open>Overflow\<close>. The
  operands here are finite decimals (the amounts are integers, and prices, scale factors
  and the optional arguments are taken to be finite); \<open>NaN\<close> and infinite operands are
  outside the model.

  \<open>pow10 e\<close> is the power of ten with an exponent of either sign.
\<close>

definition pow10 :: "int \<Rightarrow> rat" where
  "pow10 e = (if 0 \<le> e then 10 ^ nat e else 1 / 10 ^ nat (- e))"

text \<open>The number of decimal digits of an integer \<open>n \<ge> 1\<close>.\<close>

function digits10 :: "int \<Rightarrow> int" where
  "digits10 n = (if n < 10 then 1 else 1 + digits10 (n div 10))"
  by auto
termination
  by (relation "measure nat") auto

text \<open>
  The adjusted exponent of \<open>x > 0\<close>: the \<open>a\<close> with \<open>10^a \<le> x < 10^(a+1)\<close>, the exponent of
  the leading digit.
\<close>

definition adjusted :: "rat \<Rightarrow> int" where
  "adjusted x =
     (if 1 \<le> x then digits10 \<lfloor>x\<rfloor> - 1 else - digits10 (\<lceil>1 / x\<rceil> - 1))"

text \<open>Rounding to the nearest integer, a tie going to the even one (\<open>ROUND_HALF_EVEN\<close>).\<close>

definition round_half_even :: "rat \<Rightarrow> int" where
  "round_half_even x =
     (let f = \<lfloor>x\<rfloor>; r = x - of_int f
      in if r < 1 / 2 then f
         else if 1 / 2 < r then f + 1
         else if even f then f else f + 1)"

text \<open>
  The exact result \<open>q\<close> of an operation is rounded to a coefficient of 28 digits: the
  last digit kept has the exponent \<open>adjusted - 27\<close>, and not less than
  \<open>Etiny = Emin - 27 = -1000026\<close> (a subnormal result is rounded there, possibly to
  zero, and nothing is raised).
\<close>

definition decimal_round :: "rat \<Rightarrow> rat" where
  "decimal_round q =
     (if q = 0 then 0
      else let e = max (adjusted \<bar>q\<bar> - 27) (- 1000026);
               coefficient = round_half_even (\<bar>q\<bar> / pow10 e)
           in sgn q * of_int coefficient * pow10 e)"

text \<open>A rounded result whose adjusted exponent exceeds \<open>Emax\<close> raises \<open>Overflow\<close>.\<close>

definition decimal_fix :: "rat \<Rightarrow> rat result" where
  "decimal_fix q =
     (let r = decimal_round q
      in if r \<noteq> 0 \<and> 999999 < adjusted \<bar>r\<bar> then Inl Overflow else Inr r)"

definition decimal_add :: "rat \<Rightarrow> rat \<Rightarrow> rat result" where
  "decimal_add a b = decimal_fix (a + b)"

definition decimal_mul :: "rat \<Rightarrow> rat \<Rightarrow> rat result" where
  "decimal_mul a b = decimal_fix (a * b)"

text \<open>
  The quotient: \<open>x / 0\<close> signals \<open>DivisionByZero\<close>, and \<open>0 / 0\<close> signals
  \<open>InvalidOperation\<close>.
\<close>

definition decimal_div :: "rat \<Rightarrow> rat \<Rightarrow> rat result" where
  "decimal_div a b =
     (if b = 0 then Inl (if a = 0 then InvalidOperation else DivisionByZero)
      else decimal_fix (a / b))"

text \<open>A decimal that may be the sentinel \<open>Decimal("Inf")\<close>.\<close>

datatype ext_decimal = Finite rat | Infinity

fun ext_ge :: "ext_decimal \<Rightarrow> rat \<Rightarrow> bool" where
  "ext_ge Infinity t = True"
| "ext_ge (Finite x) t = (t \<le> x)"

subsection \<open>External tables and events\<close>

text \<open>
  Modelled from the spec: the module \<open>src.constants\<close> is not part of the sources. The
  token registry behind \<open>get_symbol\<close> (address to symbol) and the decimal-scale table
  \<open>TOKEN_DECIMAL_FACTORS\<close> (symbol to scale factor) are parameters, as dictionaries
  with distinct keys.
\<close>

record constants =
  TOKEN_ADDRESSES :: "(string \<times> string) list"
  TOKEN_DECIMAL_FACTORS :: "(string \<times> rat) list"

text \<open>
  Modelled from the spec: \<open>get_symbol(address_hex)\<close> returns the token symbol and fails
  on a lookup miss. The failure is a \<open>KeyError\<close>: it is the exception the loan-creation
  handler catches around its call.
\<close>

definition get_symbol :: "constants \<Rightarrow> string \<Rightarrow> string result" where
  "get_symbol c address =
     (case map_of (TOKEN_ADDRESSES c) address of
        None \<Rightarrow> Inl KeyError
      | Some symbol \<Rightarrow> Inr symbol)"

text \<open>
  A row of the events table as the event source returns it: \<open>data\<close> is the ordered array
  of hex-encoded fields.
\<close>

record raw_event =
  block_number :: int
  transaction_hash :: string
  key_name :: string
  data :: "string list"

text \<open>A row after \<open>get_events\<close> has added the column \<open>order\<close> (\<open>None\<close> is NaN).\<close>

record event = raw_event +
  order :: "int option"

text \<open>\<open>event["data"][i]\<close>: indexing the array past its end raises \<open>IndexError\<close>.\<close>

definition data_at :: "event \<Rightarrow> nat \<Rightarrow> string result" where
  "data_at ev i = (if i < length (data ev) then Inr (data ev ! i) else Inl IndexError)"

text \<open>
  \<open>int(s, base=16)\<close>: an optional sign, an optional prefix \<open>0x\<close> or \<open>0X\<close>, then at least
  one hexadecimal digit; anything else is a \<open>ValueError\<close>. (Python also accepts
  surrounding whitespace and single underscores between digits; such strings do not
  occur in event data and are a \<open>ValueError\<close> here.)
\<close>

definition hex_digit :: "char \<Rightarrow> nat option" where
  "hex_digit ch =
     (let n = (of_char ch :: nat) in
      if 48 \<le> n \<and> n \<le> 57 then Some (n - 48)
      else if 97 \<le> n \<and> n \<le> 102 then Some (n - 87)
      else if 65 \<le> n \<and> n \<le> 70 then Some (n - 55)
      else None)"

fun hex_value :: "nat \<Rightarrow> string \<Rightarrow> nat option" where
  "hex_value acc [] = Some acc"
| "hex_value acc (ch # cs) =
     (case hex_digit ch of None \<Rightarrow> None | Some d \<Rightarrow> hex_value (16 * acc + d) cs)"

definition int16 :: "string \<Rightarrow> int result" where
  "int16 s =
     (let negative = (take 1 s = ''-'');
          unsigned = (if take 1 s = ''-'' \<or> take 1 s = ''+'' then drop 1 s else s);
          digits = (if take 2 unsigned = ''0x'' \<or> take 2 unsigned = ''0X''
                    then drop 2 unsigned else unsigned)
      in if digits = [] then Inl ValueError
         else (case hex_value 0 digits of
                 None \<Rightarrow> Inl ValueError
               | Some n \<Rightarrow> Inr (if negative then - int n else int n)))"

text \<open>\<open>int(event["data"][i], base=16)\<close>\<close>

definition int_at :: "event \<Rightarrow> nat \<Rightarrow> int result" where
  "int_at ev i = rbind (data_at ev i) int16"

text \<open>
  \<open>decimal.Decimal(str(int(event["data"][i], base=16)))\<close>: \<open>str\<close> raises \<open>ValueError\<close> for
  an integer of more than 4300 decimal digits (the default limit of the conversion of
  an integer to a decimal string), and the constructor of \<open>Decimal\<close> is exact.
\<close>

definition max_str_digits :: nat where
  "max_str_digits = 4300"

definition decimal_at :: "event \<Rightarrow> nat \<Rightarrow> rat result" where
  "decimal_at ev i =
     rbind (int_at ev i) (\<lambda>n.
     if 10 ^ max_str_digits \<le> \<bar>n\<bar> then Inl ValueError else Inr (of_int n))"

text \<open>\<open>src.constants.get_symbol(event["data"][i])\<close>\<close>

definition symbol_at :: "constants \<Rightarrow> event \<Rightarrow> nat \<Rightarrow> string result" where
  "symbol_at c ev i = rbind (data_at ev i) (get_symbol c)"

subsection \<open>Token amounts and loan entities\<close>

text \<open>
  Modelled from the spec: \<open>src.state.TokenAmounts\<close> is not part of the sources. It holds
  a mapping from token symbol to amount with unique keys, in which absence means zero:
  a fresh set reads zero at every token.
\<close>

record TokenAmounts =
  token_amounts :: "(string \<times> rat) list"

definition TokenAmounts_init :: TokenAmounts where
  "TokenAmounts_init = \<lparr>token_amounts = []\<rparr>"

text \<open>The read \<open>x.token_amounts[token]\<close>.\<close>

definition amount_of :: "TokenAmounts \<Rightarrow> string \<Rightarrow> rat" where
  "amount_of x token = (case map_of (token_amounts x) token of None \<Rightarrow> 0 | Some a \<Rightarrow> a)"

text \<open>The statements \<open>x = TokenAmounts(); x.token_amounts[token] = amount\<close>.\<close>

definition TokenAmounts_single :: "string \<Rightarrow> rat \<Rightarrow> TokenAmounts" where
  "TokenAmounts_single token amount =
     TokenAmounts_init\<lparr>token_amounts :=
       AList.update token amount (token_amounts TokenAmounts_init)\<rparr>"

text \<open>
  The entity: \<open>collateral\<close> and \<open>debt\<close> are the fields of the base class
  \<open>src.state.LoanEntity\<close>, the other four those of \<open>HashstackLoanEntity\<close>.
\<close>

record HashstackLoanEntity =
  collateral :: TokenAmounts
  debt :: TokenAmounts
  user :: string
  debt_category :: int
  original_collateral :: TokenAmounts
  borrowed_collateral :: TokenAmounts

definition HashstackLoanEntity_init :: "string \<Rightarrow> int \<Rightarrow> HashstackLoanEntity" where
  "HashstackLoanEntity_init u category =
     \<lparr>collateral = TokenAmounts_init, debt = TokenAmounts_init,
      user = u, debt_category = category,
      original_collateral = TokenAmounts_init, borrowed_collateral = TokenAmounts_init\<rparr>"

text \<open>The price argument \<open>Optional[Dict[str, Decimal]]\<close>; subscripting \<open>None\<close> is a \<open>TypeError\<close>.\<close>

type_synonym prices = "(string \<rightharpoonup> rat) option"

definition price_of :: "prices \<Rightarrow> string \<Rightarrow> rat result" where
  "price_of ps token =
     (case ps of
        None \<Rightarrow> Inl TypeError
      | Some p \<Rightarrow> (case p token of None \<Rightarrow> Inl KeyError | Some v \<Rightarrow> Inr v))"

text \<open>
  Modelled from the spec: \<open>compute_collateral_usd\<close> and \<open>compute_debt_usd\<close> belong to the
  base class \<open>src.state.LoanEntity\<close>, which is not part of the sources. They sum over a
  token-amount set, converting each token's face amount to USD with the token's
  decimal-scale factor and its price, and fail when a held token has no price entry.
  The class attribute \<open>COLLATERAL_FACTORS\<close> of the sources gives every token the neutral
  factor 1 and has no part in this conversion. The terms \<open>amount / factor * price\<close> are
  added from zero in the order of the dictionary, each operation in the decimal context.
\<close>

fun usd_value :: "constants \<Rightarrow> prices \<Rightarrow> (string \<times> rat) list \<Rightarrow> rat \<Rightarrow> rat result" where
  "usd_value c ps [] running = Inr running"
| "usd_value c ps ((token, amount) # rest) running =
     (case map_of (TOKEN_DECIMAL_FACTORS c) token of
        None \<Rightarrow> Inl KeyError
      | Some factor \<Rightarrow>
          rbind (decimal_div amount factor) (\<lambda>scaled.
          rbind (price_of ps token) (\<lambda>price.
          rbind (decimal_mul scaled price) (\<lambda>usd.
          rbind (decimal_add running usd) (\<lambda>running.
          usd_value c ps rest running)))))"

definition compute_collateral_usd ::
    "constants \<Rightarrow> HashstackLoanEntity \<Rightarrow> prices \<Rightarrow> rat result" where
  "compute_collateral_usd c self ps = usd_value c ps (token_amounts (collateral self)) 0"

definition compute_debt_usd ::
    "constants \<Rightarrow> HashstackLoanEntity \<Rightarrow> prices \<Rightarrow> rat result" where
  "compute_debt_usd c self ps = usd_value c ps (token_amounts (debt self)) 0"

text \<open>
  Modelled from the spec: \<open>has_collateral\<close> and \<open>has_debt\<close> of the base class: the entity
  holds any collateral, any debt.
\<close>

definition has_collateral :: "HashstackLoanEntity \<Rightarrow> bool" where
  "has_collateral self = list_ex (\<lambda>(token, amount). amount \<noteq> 0) (token_amounts (collateral self))"

definition has_debt :: "HashstackLoanEntity \<Rightarrow> bool" where
  "has_debt self = list_ex (\<lambda>(token, amount). amount \<noteq> 0) (token_amounts (debt self))"

subsection \<open>Derived figures of one loan entity\<close>

definition compute_health_factor ::
    "constants \<Rightarrow> HashstackLoanEntity \<Rightarrow> prices \<Rightarrow> rat option \<Rightarrow> rat option
      \<Rightarrow> ext_decimal result" where
  "compute_health_factor c self ps collateral_usd debt_usd =
     rbind (case collateral_usd of
              None \<Rightarrow> compute_collateral_usd c self ps
            | Some x \<Rightarrow> Inr x) (\<lambda>collateral_usd.
     rbind (case debt_usd of
              None \<Rightarrow> compute_debt_usd c self ps
            | Some x \<Rightarrow> Inr x) (\<lambda>debt_usd.
     if debt_usd = 0 then Inr Infinity
     else rbind (decimal_div collateral_usd debt_usd) (\<lambda>q. Inr (Finite q))))"

definition compute_standardized_health_factor ::
    "constants \<Rightarrow> HashstackLoanEntity \<Rightarrow> prices \<Rightarrow> rat option \<Rightarrow> rat option
      \<Rightarrow> ext_decimal result" where
  "compute_standardized_health_factor c self ps collateral_usd debt_usd =
     rbind (case collateral_usd of
              None \<Rightarrow> compute_collateral_usd c self ps
            | Some x \<Rightarrow> Inr x) (\<lambda>collateral_usd.
     rbind (case debt_usd of
              None \<Rightarrow> compute_debt_usd c self ps
            | Some x \<Rightarrow> Inr x) (\<lambda>debt_usd.
     let health_factor_liquidation_threshold =
           (if debt_category self = 1 then 106 / 100
            else if debt_category self = 2 then 105 / 100
            else 104 / 100)
     in rbind (decimal_mul health_factor_liquidation_threshold debt_usd)
          (\<lambda>collateral_usd_threshold.
        if collateral_usd_threshold = 0 then Inr Infinity
        else rbind (decimal_div collateral_usd collateral_usd_threshold)
               (\<lambda>q. Inr (Finite q)))))"

definition compute_debt_to_be_liquidated ::
    "constants \<Rightarrow> HashstackLoanEntity \<Rightarrow> rat option \<Rightarrow> prices \<Rightarrow> rat result" where
  "compute_debt_to_be_liquidated c self debt_usd ps =
     rbind (case debt_usd of
              None \<Rightarrow> compute_debt_usd c self ps
            | Some x \<Rightarrow> Inr x) (\<lambda>debt_usd.
     Inr debt_usd)"

subsection \<open>Ordering the events\<close>

text \<open>
  The rows returned by \<open>src.helpers.get_events\<close> (not part of the sources) are the
  argument. \<open>get_events\<close> maps \<open>key_name\<close> to the column \<open>order\<close> (a name outside the
  dictionary gives NaN) and sorts on the three columns. A sort of a data frame on
  several columns is stable and puts NaN last.
\<close>

definition order_of_key_name :: "string \<Rightarrow> int option" where
  "order_of_key_name k =
     map_of
       [(''new_loan'', 0),
        (''loan_withdrawal'', 3),
        (''loan_repaid'', 4),
        (''loan_swap'', 1),
        (''collateral_added'', 6),
        (''collateral_withdrawal'', 7),
        (''loan_interest_deducted'', 5),
        (''liquidated'', 2)] k"

definition with_order :: "raw_event \<Rightarrow> event" where
  "with_order r =
     \<lparr>block_number = block_number r, transaction_hash = transaction_hash r,
      key_name = key_name r, data = data r, order = order_of_key_name (key_name r)\<rparr>"

definition sort_columns :: "event \<Rightarrow> int \<times> string \<times> bool \<times> int" where
  "sort_columns ev =
     (block_number ev, transaction_hash ev,
      (case order ev of None \<Rightarrow> (True, 0) | Some n \<Rightarrow> (False, n)))"

definition get_events :: "raw_event list \<Rightarrow> event list" where
  "get_events events = sort_key sort_columns (map with_order events)"

subsection \<open>The state and its event handlers\<close>

text \<open>
  Modelled from the spec: the base class \<open>src.state.State\<close> is not part of the sources.
  The store \<open>loan_entities\<close> is a mapping from loan id to loan entity, empty at the
  start; reading an absent loan id fails.
\<close>

record HashstackState =
  loan_entities :: "(int \<times> HashstackLoanEntity) list"
  verbose_user :: "string option"

definition HashstackState_init :: "string option \<Rightarrow> HashstackState" where
  "HashstackState_init vu = \<lparr>loan_entities = [], verbose_user = vu\<rparr>"

definition get_loan :: "HashstackState \<Rightarrow> int \<Rightarrow> HashstackLoanEntity result" where
  "get_loan self loan_id =
     (case map_of (loan_entities self) loan_id of
        None \<Rightarrow> Inl KeyError
      | Some loan_entity \<Rightarrow> Inr loan_entity)"

definition set_loan :: "HashstackState \<Rightarrow> int \<Rightarrow> HashstackLoanEntity \<Rightarrow> HashstackState" where
  "set_loan self loan_id loan_entity =
     self\<lparr>loan_entities := AList.update loan_id loan_entity (loan_entities self)\<rparr>"

text \<open>
  The dictionary comprehension every handler ends its collateral rewrite with:
  \<open>collateral.token_amounts = {token: original_collateral.token_amounts[token]
  + borrowed_collateral.token_amounts[token] for token in TOKEN_DECIMAL_FACTORS}\<close>.
  The sum is the sum of the decimal context. A handler in which it raises returns the
  exception only.
\<close>

fun collateral_items :: "HashstackLoanEntity \<Rightarrow> string list \<Rightarrow> (string \<times> rat) list result" where
  "collateral_items loan_entity [] = Inr []"
| "collateral_items loan_entity (token # tokens) =
     rbind (decimal_add (amount_of (original_collateral loan_entity) token)
              (amount_of (borrowed_collateral loan_entity) token)) (\<lambda>amount.
     rbind (collateral_items loan_entity tokens) (\<lambda>items.
     Inr ((token, amount) # items)))"

definition recompute_collateral ::
    "constants \<Rightarrow> HashstackLoanEntity \<Rightarrow> HashstackLoanEntity result" where
  "recompute_collateral c loan_entity =
     rbind (collateral_items loan_entity (map fst (TOKEN_DECIMAL_FACTORS c))) (\<lambda>items.
     Inr (loan_entity\<lparr>collateral := (collateral loan_entity)\<lparr>token_amounts := items\<rparr>\<rparr>))"

text \<open>
  The \<open>try\<close> block of the loan-creation handler reads the token at index \<open>i\<close> and the
  amount at index \<open>j\<close>; the \<open>except KeyError\<close> clause reads the other layout.
\<close>

definition original_collateral_at :: "constants \<Rightarrow> event \<Rightarrow> nat \<Rightarrow> nat \<Rightarrow> (string \<times> rat) result" where
  "original_collateral_at c ev i j =
     rbind (symbol_at c ev i) (\<lambda>original_collateral_token.
     rbind (decimal_at ev j) (\<lambda>original_collateral_face_amount.
     Inr (original_collateral_token, original_collateral_face_amount)))"

definition process_new_loan_event ::
    "constants \<Rightarrow> HashstackState \<Rightarrow> event \<Rightarrow> HashstackState result" where
  "process_new_loan_event c self ev =
     rbind (int_at ev 0) (\<lambda>loan_id.
     rbind (data_at ev 1) (\<lambda>u.
     rbind (symbol_at c ev 2) (\<lambda>debt_token.
     rbind (decimal_at ev 4) (\<lambda>debt_face_amount.
     rbind (symbol_at c ev 6) (\<lambda>borrowed_collateral_token.
     rbind (decimal_at ev 7) (\<lambda>borrowed_collateral_face_amount.
     rbind (int_at ev 10) (\<lambda>category.
     rbind (case original_collateral_at c ev 14 17 of
              Inl KeyError \<Rightarrow> original_collateral_at c ev 13 16
            | other \<Rightarrow> other)
       (\<lambda>(original_collateral_token, original_collateral_face_amount).
     let loan_entity = HashstackLoanEntity_init u category;
         loan_entity = loan_entity\<lparr>original_collateral :=
           TokenAmounts_single original_collateral_token original_collateral_face_amount\<rparr>;
         loan_entity = loan_entity\<lparr>borrowed_collateral :=
           TokenAmounts_single borrowed_collateral_token borrowed_collateral_face_amount\<rparr>
     in rbind (recompute_collateral c loan_entity) (\<lambda>loan_entity.
        let loan_entity = loan_entity\<lparr>debt := TokenAmounts_single debt_token debt_face_amount\<rparr>
        in Inr (set_loan self loan_id loan_entity))))))))))"

text \<open>
  The handlers of \<open>collateral_added\<close>, \<open>collateral_withdrawal\<close> and
  \<open>loan_interest_deducted\<close> have the same body up to the index of the loan id.
\<close>

definition rewrite_original_collateral ::
    "constants \<Rightarrow> HashstackState \<Rightarrow> event \<Rightarrow> nat \<Rightarrow> HashstackState result" where
  "rewrite_original_collateral c self ev loan_id_index =
     rbind (int_at ev loan_id_index) (\<lambda>loan_id.
     rbind (symbol_at c ev 0) (\<lambda>original_collateral_token.
     rbind (decimal_at ev 3) (\<lambda>original_collateral_face_amount.
     rbind (get_loan self loan_id) (\<lambda>loan_entity.
     let loan_entity = loan_entity\<lparr>original_collateral :=
           TokenAmounts_single original_collateral_token original_collateral_face_amount\<rparr>
     in rbind (recompute_collateral c loan_entity) (\<lambda>loan_entity.
        Inr (set_loan self loan_id loan_entity))))))"

definition process_collateral_added_event ::
    "constants \<Rightarrow> HashstackState \<Rightarrow> event \<Rightarrow> HashstackState result" where
  "process_collateral_added_event c self ev = rewrite_original_collateral c self ev 9"

definition process_collateral_withdrawal_event ::
    "constants \<Rightarrow> HashstackState \<Rightarrow> event \<Rightarrow> HashstackState result" where
  "process_collateral_withdrawal_event c self ev = rewrite_original_collateral c self ev 9"

definition process_loan_interest_deducted_event ::
    "constants \<Rightarrow> HashstackState \<Rightarrow> event \<Rightarrow> HashstackState result" where
  "process_loan_interest_deducted_event c self ev = rewrite_original_collateral c self ev 11"

definition process_loan_withdrawal_event ::
    "constants \<Rightarrow> HashstackState \<Rightarrow> event \<Rightarrow> HashstackState result" where
  "process_loan_withdrawal_event c self ev =
     rbind (int_at ev 0) (\<lambda>loan_id.
     rbind (data_at ev 1) (\<lambda>u.
     rbind (get_loan self loan_id) (\<lambda>loan_entity.
     rbind (py_assert (user loan_entity = u)) (\<lambda>_.
     rbind (symbol_at c ev 2) (\<lambda>debt_token.
     rbind (decimal_at ev 4) (\<lambda>debt_face_amount.
     rbind (symbol_at c ev 6) (\<lambda>borrowed_collateral_token.
     rbind (decimal_at ev 7) (\<lambda>borrowed_collateral_face_amount.
     rbind (int_at ev 10) (\<lambda>category.
     let loan_entity = loan_entity\<lparr>borrowed_collateral :=
           TokenAmounts_single borrowed_collateral_token borrowed_collateral_face_amount\<rparr>
     in rbind (recompute_collateral c loan_entity) (\<lambda>loan_entity.
        let loan_entity = loan_entity\<lparr>debt := TokenAmounts_single debt_token debt_face_amount\<rparr>;
            loan_entity = loan_entity\<lparr>debt_category := category\<rparr>
        in Inr (set_loan self loan_id loan_entity)))))))))))"

definition process_loan_repaid_event ::
    "constants \<Rightarrow> HashstackState \<Rightarrow> event \<Rightarrow> HashstackState result" where
  "process_loan_repaid_event c self ev =
     rbind (int_at ev 0) (\<lambda>loan_id.
     rbind (data_at ev 1) (\<lambda>u.
     rbind (get_loan self loan_id) (\<lambda>loan_entity.
     rbind (py_assert (user loan_entity = u)) (\<lambda>_.
     rbind (symbol_at c ev 2) (\<lambda>debt_token.
     let debt_face_amount = 0 in
     rbind (symbol_at c ev 6) (\<lambda>borrowed_collateral_token.
     rbind (decimal_at ev 7) (\<lambda>borrowed_collateral_face_amount.
     rbind (py_assert (borrowed_collateral_face_amount = 0)) (\<lambda>_.
     rbind (int_at ev 10) (\<lambda>category.
     let loan_entity = loan_entity\<lparr>borrowed_collateral :=
           TokenAmounts_single borrowed_collateral_token borrowed_collateral_face_amount\<rparr>
     in rbind (recompute_collateral c loan_entity) (\<lambda>loan_entity.
        let loan_entity = loan_entity\<lparr>debt := TokenAmounts_single debt_token debt_face_amount\<rparr>;
            loan_entity = loan_entity\<lparr>debt_category := category\<rparr>
        in Inr (set_loan self loan_id loan_entity)))))))))))"

text \<open>
  The loan-swap handler rewrites \<open>borrowed_collateral\<close> and \<open>collateral\<close> before its last
  assertion; a run that fails there returns the exception only. That assertion compares two
  dictionaries: they are equal when they hold the same items, in any order.
\<close>

definition process_loan_swap_event ::
    "constants \<Rightarrow> HashstackState \<Rightarrow> event \<Rightarrow> HashstackState result" where
  "process_loan_swap_event c self ev =
     rbind (int_at ev 0) (\<lambda>old_loan_id.
     rbind (data_at ev 1) (\<lambda>old_user.
     rbind (get_loan self old_loan_id) (\<lambda>old_loan_entity.
     rbind (py_assert (user old_loan_entity = old_user)) (\<lambda>_.
     rbind (int_at ev 14) (\<lambda>new_loan_id.
     rbind (data_at ev 15) (\<lambda>new_user.
     rbind (py_assert (new_loan_id = old_loan_id)) (\<lambda>_.
     rbind (py_assert (new_user = old_user)) (\<lambda>_.
     rbind (symbol_at c ev 16) (\<lambda>new_debt_token.
     rbind (decimal_at ev 18) (\<lambda>new_debt_face_amount.
     rbind (symbol_at c ev 20) (\<lambda>new_borrowed_collateral_token.
     rbind (decimal_at ev 21) (\<lambda>new_borrowed_collateral_face_amount.
     rbind (int_at ev 24) (\<lambda>new_debt_category.
     rbind (get_loan self new_loan_id) (\<lambda>loan_entity.
     let loan_entity = loan_entity\<lparr>borrowed_collateral :=
           TokenAmounts_single new_borrowed_collateral_token
             new_borrowed_collateral_face_amount\<rparr>
     in rbind (recompute_collateral c loan_entity) (\<lambda>loan_entity.
        let new_debt = TokenAmounts_single new_debt_token new_debt_face_amount
        in rbind (py_assert (set (token_amounts (debt loan_entity))
                               = set (token_amounts new_debt))) (\<lambda>_.
           let loan_entity = loan_entity\<lparr>debt := new_debt\<rparr>;
               loan_entity = loan_entity\<lparr>debt_category := new_debt_category\<rparr>
           in Inr (set_loan self new_loan_id loan_entity)))))))))))))))))"

definition process_liquidated_event ::
    "constants \<Rightarrow> HashstackState \<Rightarrow> event \<Rightarrow> HashstackState result" where
  "process_liquidated_event c self ev =
     rbind (int_at ev 0) (\<lambda>loan_id.
     rbind (data_at ev 1) (\<lambda>u.
     rbind (get_loan self loan_id) (\<lambda>loan_entity.
     rbind (py_assert (user loan_entity = u)) (\<lambda>_.
     rbind (symbol_at c ev 2) (\<lambda>debt_token.
     let debt_face_amount = 0 in
     rbind (symbol_at c ev 6) (\<lambda>borrowed_collateral_token.
     rbind (decimal_at ev 7) (\<lambda>borrowed_collateral_face_amount.
     rbind (py_assert (borrowed_collateral_face_amount = 0)) (\<lambda>_.
     rbind (int_at ev 10) (\<lambda>category.
     let loan_entity = loan_entity\<lparr>borrowed_collateral :=
           TokenAmounts_single borrowed_collateral_token borrowed_collateral_face_amount\<rparr>;
         loan_entity = loan_entity\<lparr>original_collateral := TokenAmounts_init\<rparr>
     in rbind (recompute_collateral c loan_entity) (\<lambda>loan_entity.
        let loan_entity = loan_entity\<lparr>debt := TokenAmounts_single debt_token debt_face_amount\<rparr>;
            loan_entity = loan_entity\<lparr>debt_category := category\<rparr>
        in Inr (set_loan self loan_id loan_entity)))))))))))"

text \<open>The dictionary \<open>EVENTS_METHODS_MAPPING\<close>, from \<open>key_name\<close> to the handler.\<close>

definition EVENTS_METHODS_MAPPING ::
    "(string \<times> (constants \<Rightarrow> HashstackState \<Rightarrow> event \<Rightarrow> HashstackState result)) list" where
  "EVENTS_METHODS_MAPPING =
     [(''new_loan'', process_new_loan_event),
      (''collateral_added'', process_collateral_added_event),
      (''collateral_withdrawal'', process_collateral_withdrawal_event),
      (''loan_withdrawal'', process_loan_withdrawal_event),
      (''loan_repaid'', process_loan_repaid_event),
      (''loan_swap'', process_loan_swap_event),
      (''loan_interest_deducted'', process_loan_interest_deducted_event),
      (''liquidated'', process_liquidated_event)]"

text \<open>
  Modelled from the spec: the dispatcher of the base class \<open>src.state.State\<close> routes each
  event to the handler \<open>EVENTS_METHODS_MAPPING\<close> names for its \<open>key_name\<close>, and a replay
  applies the events strictly in order and stops at the first failure.
\<close>

definition process_event ::
    "constants \<Rightarrow> HashstackState \<Rightarrow> event \<Rightarrow> HashstackState result" where
  "process_event c self ev =
     (case map_of EVENTS_METHODS_MAPPING (key_name ev) of
        None \<Rightarrow> Inl KeyError
      | Some handler \<Rightarrow> handler c self ev)"

fun replay :: "constants \<Rightarrow> HashstackState \<Rightarrow> event list \<Rightarrow> HashstackState result" where
  "replay c self [] = Inr self"
| "replay c self (ev # evs) = rbind (process_event c self ev) (\<lambda>self'. replay c self' evs)"

subsection \<open>Figures over the whole store\<close>

text \<open>
  The loop of \<open>compute_liquidable_debt_at_price\<close> over \<open>loan_entities.items()\<close>, with the
  running total \<open>max_liquidated_amount\<close> as accumulator; \<open>continue\<close> is the recursive
  call on the rest with the total unchanged.
\<close>

fun liquidable_debt_loop ::
    "constants \<Rightarrow> (string \<rightharpoonup> rat) \<Rightarrow> string \<Rightarrow> (int \<times> HashstackLoanEntity) list \<Rightarrow> rat
      \<Rightarrow> rat result" where
  "liquidable_debt_loop c changed_prices debt_token [] max_liquidated_amount =
     Inr max_liquidated_amount"
| "liquidable_debt_loop c changed_prices debt_token ((loan_id, loan_entity) # rest)
       max_liquidated_amount =
     (let debt_tokens =
            map fst (filter (\<lambda>(token, token_amount). token_amount > 0)
                       (token_amounts (debt loan_entity)))
      in if debt_token \<notin> set debt_tokens
         then liquidable_debt_loop c changed_prices debt_token rest max_liquidated_amount
         else
           rbind (compute_debt_usd c loan_entity (Some changed_prices)) (\<lambda>debt_usd.
           rbind (compute_health_factor c loan_entity (Some changed_prices) None (Some debt_usd))
             (\<lambda>health_factor.
           let health_factor_liquidation_threshold =
                 (if debt_category loan_entity = 1 then 106 / 100
                  else if debt_category loan_entity = 2 then 105 / 100
                  else 104 / 100)
           in if ext_ge health_factor health_factor_liquidation_threshold
              then liquidable_debt_loop c changed_prices debt_token rest max_liquidated_amount
              else
                rbind (compute_debt_to_be_liquidated c loan_entity (Some debt_usd) None)
                  (\<lambda>liquidated.
                rbind (decimal_add max_liquidated_amount liquidated)
                  (\<lambda>max_liquidated_amount.
                liquidable_debt_loop c changed_prices debt_token rest
                  max_liquidated_amount)))))"

definition compute_liquidable_debt_at_price ::
    "constants \<Rightarrow> HashstackState \<Rightarrow> (string \<rightharpoonup> rat) \<Rightarrow> string \<Rightarrow> rat \<Rightarrow> string
      \<Rightarrow> rat result" where
  "compute_liquidable_debt_at_price c self ps collateral_token collateral_token_price debt_token =
     (let changed_prices = ps(collateral_token \<mapsto> collateral_token_price);
          max_liquidated_amount = 0
      in liquidable_debt_loop c changed_prices debt_token (loan_entities self)
           max_liquidated_amount)"

definition compute_number_of_active_users :: "HashstackState \<Rightarrow> nat" where
  "compute_number_of_active_users self =
     (let unique_active_users =
            set (map user (filter (\<lambda>loan_entity. has_collateral loan_entity \<or> has_debt loan_entity)
                             (map snd (loan_entities self))))
      in card unique_active_users)"

definition compute_number_of_active_borrowers :: "HashstackState \<Rightarrow> nat" where
  "compute_number_of_active_borrowers self =
     (let unique_active_borrowers =
            set (map user (filter (\<lambda>loan_entity. has_debt loan_entity)
                             (map snd (loan_entities self))))
      in card unique_active_borrowers)"

section \<open>Notions of the specification\<close>

text \<open>
  The category thresholds in the specification's words: category 1 gives 1.06,
  category 2 gives 1.05, any other value gives 1.04.
\<close>

definition liquidation_threshold :: "int \<Rightarrow> rat" where
  "liquidation_threshold category =
     (if category = 1 then 106 / 100 else if category = 2 then 105 / 100 else 104 / 100)"

text \<open>The loan holds a strictly positive amount of the token in its debt set.\<close>

definition holds_positive_debt :: "HashstackLoanEntity \<Rightarrow> string \<Rightarrow> bool" where
  "holds_positive_debt loan_entity debt_token =
     list_ex (\<lambda>(token, token_amount). token = debt_token \<and> token_amount > 0)
       (token_amounts (debt loan_entity))"

text \<open>The value of a computation that returned (zero stands in for one that raised).\<close>

definition value_of :: "rat result \<Rightarrow> rat" where
  "value_of r = (case r of Inl e \<Rightarrow> 0 | Inr x \<Rightarrow> x)"

text \<open>
  The sum of a list of decimals as a scan forms it: from the running total, one addition
  of the decimal context per term, from left to right.
\<close>

fun decimal_sum :: "rat \<Rightarrow> rat list \<Rightarrow> rat result" where
  "decimal_sum running [] = Inr running"
| "decimal_sum running (x # xs) =
     rbind (decimal_add running x) (\<lambda>running. decimal_sum running xs)"

text \<open>The health factor of the loan under the prices is strictly below its category's threshold.\<close>

definition below_threshold :: "constants \<Rightarrow> (string \<rightharpoonup> rat) \<Rightarrow> HashstackLoanEntity \<Rightarrow> bool" where
  "below_threshold c changed_prices loan_entity =
     (case compute_health_factor c loan_entity (Some changed_prices) None None of
        Inl e \<Rightarrow> False
      | Inr health_factor \<Rightarrow>
          \<not> ext_ge health_factor (liquidation_threshold (debt_category loan_entity)))"

text \<open>
  The standing invariant of a loan entity: over the known tokens, \<open>collateral\<close> is the
  element-wise sum of \<open>original_collateral\<close> and \<open>borrowed_collateral\<close>, the sum being
  the \<open>+\<close> of the decimal context as in the expression of the specification.
\<close>

definition collateral_is_sum :: "constants \<Rightarrow> HashstackLoanEntity \<Rightarrow> bool" where
  "collateral_is_sum c loan_entity =
     list_all (\<lambda>token. decimal_add (amount_of (original_collateral loan_entity) token)
                   (amount_of (borrowed_collateral loan_entity) token)
                 = Inr (amount_of (collateral loan_entity) token))
       (map fst (TOKEN_DECIMAL_FACTORS c))"

text \<open>The amounts of a token-amount set are whole numbers, as the face amounts of the events are.\<close>

definition integral_amounts :: "TokenAmounts \<Rightarrow> bool" where
  "integral_amounts x =
     list_all (\<lambda>(token, amount). of_int \<lfloor>amount\<rfloor> = amount) (token_amounts x)"

text \<open>
  The invariant of the store: every loan entity has its collateral equal to the sum of
  its parts, and whole numbers as the amounts of the parts.
\<close>

definition store_invariant :: "constants \<Rightarrow> HashstackState \<Rightarrow> bool" where
  "store_invariant c self =
     list_all (\<lambda>(loan_id, loan_entity).
         collateral_is_sum c loan_entity
       \<and> integral_amounts (original_collateral loan_entity)
       \<and> integral_amounts (borrowed_collateral loan_entity))
       (loan_entities self)"

text \<open>
  The states the replay engine can be in: the empty store, and what a handler of
  \<open>EVENTS_METHODS_MAPPING\<close> returns on such a state for any event.
\<close>

inductive reachable :: "constants \<Rightarrow> HashstackState \<Rightarrow> bool" for c where
  initial: "reachable c (HashstackState_init vu)"
| handled: "reachable c self \<Longrightarrow> (name, handler) \<in> set EVENTS_METHODS_MAPPING
      \<Longrightarrow> handler c self ev = Inr self' \<Longrightarrow> reachable c self'"

section \<open>The scenarios of the specification\<close>

text \<open>
  Two tokens \<open>A\<close> and \<open>B\<close> with scale factor 1. Loan 7 owes 100 units of \<open>A\<close> against 50
  units of \<open>B\<close> of its own and 20 borrowed; loan 8 of the same user owes 100 units of
  \<open>A\<close> against 200 units of \<open>B\<close>; loan 9 was opened and holds nothing.
\<close>

definition scenario_constants :: constants where
  "scenario_constants =
     \<lparr>TOKEN_ADDRESSES = [(''0xa'', ''A''), (''0xb'', ''B'')],
      TOKEN_DECIMAL_FACTORS = [(''A'', 1), (''B'', 1)]\<rparr>"

definition scenario_prices :: "string \<rightharpoonup> rat" where
  "scenario_prices = [''A'' \<mapsto> 1, ''B'' \<mapsto> 3]"

definition scenario_loan_7 :: HashstackLoanEntity where
  "scenario_loan_7 =
     \<lparr>collateral = \<lparr>token_amounts = [(''A'', 0), (''B'', 70)]\<rparr>,
      debt = \<lparr>token_amounts = [(''A'', 100)]\<rparr>,
      user = ''0x51'', debt_category = 3,
      original_collateral = \<lparr>token_amounts = [(''B'', 50)]\<rparr>,
      borrowed_collateral = \<lparr>token_amounts = [(''B'', 20)]\<rparr>\<rparr>"

definition scenario_loan_8 :: HashstackLoanEntity where
  "scenario_loan_8 =
     \<lparr>collateral = \<lparr>token_amounts = [(''A'', 0), (''B'', 200)]\<rparr>,
      debt = \<lparr>token_amounts = [(''A'', 100)]\<rparr>,
      user = ''0x51'', debt_category = 1,
      original_collateral = \<lparr>token_amounts = [(''B'', 200)]\<rparr>,
      borrowed_collateral = \<lparr>token_amounts = [(''B'', 0)]\<rparr>\<rparr>"

definition scenario_loan_9 :: HashstackLoanEntity where
  "scenario_loan_9 = HashstackLoanEntity_init ''0x52'' 2"

definition scenario_state :: HashstackState where
  "scenario_state =
     \<lparr>loan_entities = [(7, scenario_loan_7), (8, scenario_loan_8), (9, scenario_loan_9)],
      verbose_user = None\<rparr>"

text \<open>
  The events of the scenarios. The loan-creation event of loan 7 in the primary layout
  (collateral token at index 14, amount at index 17), in the alternate layout (one field
  less before the collateral record: token at index 13, amount at index 16), and cut
  after index 16; a second loan-creation event that names loan 7 again; and the later
  events on loan 7.
\<close>

definition scenario_new_loan_event :: event where
  "scenario_new_loan_event =
     \<lparr>block_number = 1, transaction_hash = ''0xf1'', key_name = ''new_loan'',
      data = [''0x7'', ''0x51'', ''0xa'', ''0x0'', ''0x64'', ''0x0'', ''0xb'', ''0x14'',
              ''0x0'', ''0x0'', ''0x3'', ''0x1'', ''0x0'', ''0x0'', ''0xb'', ''0x32'',
              ''0x0'', ''0x32'', ''0x0'', ''0x0'', ''0x0'', ''0x0'', ''0x0'', ''0x0''],
      order = Some 0\<rparr>"

definition scenario_alternate_new_loan_event :: event where
  "scenario_alternate_new_loan_event =
     \<lparr>block_number = 1, transaction_hash = ''0xf1'', key_name = ''new_loan'',
      data = [''0x7'', ''0x51'', ''0xa'', ''0x0'', ''0x64'', ''0x0'', ''0xb'', ''0x14'',
              ''0x0'', ''0x0'', ''0x3'', ''0x1'', ''0x0'', ''0xb'', ''0x32'', ''0x0'',
              ''0x32'', ''0x0'', ''0x0'', ''0x0'', ''0x0'', ''0x0'', ''0x0''],
      order = Some 0\<rparr>"

definition scenario_truncated_new_loan_event :: event where
  "scenario_truncated_new_loan_event =
     \<lparr>block_number = 1, transaction_hash = ''0xf1'', key_name = ''new_loan'',
      data = [''0x7'', ''0x51'', ''0xa'', ''0x0'', ''0x64'', ''0x0'', ''0xb'', ''0x14'',
              ''0x0'', ''0x0'', ''0x3'', ''0x1'', ''0x0'', ''0xb'', ''0xb'', ''0x0'',
              ''0x32''],
      order = Some 0\<rparr>"

definition scenario_second_new_loan_event :: event where
  "scenario_second_new_loan_event =
     \<lparr>block_number = 3, transaction_hash = ''0xf3'', key_name = ''new_loan'',
      data = [''0x7'', ''0x52'', ''0xa'', ''0x0'', ''0x1'', ''0x0'', ''0xb'', ''0x0'',
              ''0x0'', ''0x0'', ''0x1'', ''0x1'', ''0x0'', ''0x0'', ''0xb'', ''0x2'',
              ''0x0'', ''0x2'', ''0x0'', ''0x0'', ''0x0'', ''0x0'', ''0x0'', ''0x0''],
      order = Some 0\<rparr>"

definition scenario_replacing_loan :: HashstackLoanEntity where
  "scenario_replacing_loan =
     \<lparr>collateral = \<lparr>token_amounts = [(''A'', 0), (''B'', 2)]\<rparr>,
      debt = \<lparr>token_amounts = [(''A'', 1)]\<rparr>,
      user = ''0x52'', debt_category = 1,
      original_collateral = \<lparr>token_amounts = [(''B'', 2)]\<rparr>,
      borrowed_collateral = \<lparr>token_amounts = [(''B'', 0)]\<rparr>\<rparr>"

definition scenario_collateral_added_event :: event where
  "scenario_collateral_added_event =
     \<lparr>block_number = 5, transaction_hash = ''0xf5'', key_name = ''collateral_added'',
      data = [''0xb'', ''0x0'', ''0x0'', ''0x3c'', ''0x0'', ''0x0'', ''0x0'', ''0x0'', ''0x0'',
              ''0x7'', ''0xa'', ''0x0'', ''0x0''],
      order = Some 6\<rparr>"

definition scenario_loan_repaid_event :: event where
  "scenario_loan_repaid_event =
     \<lparr>block_number = 6, transaction_hash = ''0xf6'', key_name = ''loan_repaid'',
      data = [''0x7'', ''0x51'', ''0xa'', ''0x0'', ''0x64'', ''0x0'', ''0xb'', ''0x0'',
              ''0x0'', ''0x0'', ''0x3'', ''0x1'', ''0x0'', ''0x0'', ''0x0''],
      order = Some 4\<rparr>"

definition scenario_liquidated_event :: event where
  "scenario_liquidated_event =
     \<lparr>block_number = 2, transaction_hash = ''0xf2'', key_name = ''liquidated'',
      data = [''0x7'', ''0x51'', ''0xa'', ''0x0'', ''0x0'', ''0x0'', ''0xb'', ''0x0'',
              ''0x0'', ''0x0'', ''0x2'', ''0x1'', ''0x0'', ''0x0'', ''0x99'', ''0x0''],
      order = Some 2\<rparr>"

text \<open>
  Rows as the event source returns them: two \<open>collateral_added\<close> rows of one transaction
  that differ in their data, and a \<open>new_loan\<close> row of the same transaction.
\<close>

definition scenario_raw_event_a :: raw_event where
  "scenario_raw_event_a =
     \<lparr>block_number = 5, transaction_hash = ''0xf5'', key_name = ''collateral_added'',
      data = [''0xb'', ''0x0'', ''0x0'', ''0x3c'', ''0x0'', ''0x0'', ''0x0'', ''0x0'', ''0x0'',
              ''0x7'', ''0xa'', ''0x0'', ''0x0'']\<rparr>"

definition scenario_raw_event_b :: raw_event where
  "scenario_raw_event_b =
     \<lparr>block_number = 5, transaction_hash = ''0xf5'', key_name = ''collateral_added'',
      data = [''0xb'', ''0x0'', ''0x0'', ''0x50'', ''0x0'', ''0x0'', ''0x0'', ''0x0'', ''0x0'',
              ''0x7'', ''0x14'', ''0x0'', ''0x0'']\<rparr>"

definition scenario_raw_event_c :: raw_event where
  "scenario_raw_event_c =
     \<lparr>block_number = 5, transaction_hash = ''0xf5'', key_name = ''new_loan'',
      data = []\<rparr>"

section \<open>Properties\<close>

subsection \<open>The rounding of the decimal context\<close>

declare digits10.simps [simp del]

lemma pow10_eq_powi: "pow10 e = 10 powi e"
  by (simp add: pow10_def power_int_def field_simps)

lemma pow10_pos [simp]: "0 < pow10 e"
  by (simp add: pow10_eq_powi)

lemma pow10_neq_0 [simp]: "pow10 e \<noteq> 0"
  by (simp add: pow10_eq_powi)

lemma pow10_1: "pow10 1 = 10"
  by (simp add: pow10_def)

lemma pow10_add: "pow10 (a + b) = pow10 a * pow10 b"
  by (simp add: pow10_eq_powi power_int_add)

lemma pow10_nat: "pow10 (int k) = 10 ^ k"
  by (simp add: pow10_def)

lemma pow10_neg_nat: "pow10 (- int k) = 1 / 10 ^ k"
  by (simp add: pow10_eq_powi power_int_minus field_simps)

lemma pow10_strict_mono: "a < b \<Longrightarrow> pow10 a < pow10 b"
  unfolding pow10_eq_powi by (rule power_int_strict_increasing) simp_all

lemma pow10_mono: "a \<le> b \<Longrightarrow> pow10 a \<le> pow10 b"
  unfolding pow10_eq_powi by (rule power_int_increasing) simp_all

lemma pow10_less_iff [simp]: "pow10 a < pow10 b \<longleftrightarrow> a < b"
  by (meson pow10_mono pow10_strict_mono not_le)

lemma pow10_le_iff [simp]: "pow10 a \<le> pow10 b \<longleftrightarrow> a \<le> b"
  by (meson pow10_mono pow10_strict_mono not_le)

lemma digits10_pos: "1 \<le> digits10 n"
proof (induction n rule: digits10.induct)
  case (1 n)
  then show ?case by (subst digits10.simps) (cases "n < 10", simp_all)
qed

lemma digits10_bounds:
  "1 \<le> n \<Longrightarrow> 10 ^ nat (digits10 n - 1) \<le> n \<and> n < 10 ^ nat (digits10 n)"
proof (induction n rule: digits10.induct)
  case (1 n)
  show ?case
  proof (cases "n < 10")
    case True
    with "1.prems" show ?thesis by (subst (1 2) digits10.simps) simp
  next
    case False
    then have m: "1 \<le> n div 10" by simp
    from "1.IH" [OF False m]
    have lo: "10 ^ nat (digits10 (n div 10) - 1) \<le> n div 10"
      and hi: "n div 10 < 10 ^ nat (digits10 (n div 10))" by simp_all
    have d: "digits10 n = 1 + digits10 (n div 10)"
      using False by (subst digits10.simps) simp
    have p: "nat (digits10 (n div 10)) = Suc (nat (digits10 (n div 10) - 1))"
      using digits10_pos [of "n div 10"] by simp
    have "10 * 10 ^ nat (digits10 (n div 10) - 1) \<le> 10 * (n div 10)"
      using lo by simp
    also have "\<dots> \<le> n" by simp
    finally have lo': "10 ^ nat (digits10 n - 1) \<le> n"
      by (simp add: d p)
    have "n div 10 + 1 \<le> 10 ^ nat (digits10 (n div 10))" using hi by simp
    then have "10 * (n div 10 + 1) \<le> 10 * 10 ^ nat (digits10 (n div 10))"
      by simp
    moreover have "n < 10 * (n div 10 + 1)" by simp
    ultimately have "n < 10 * 10 ^ nat (digits10 (n div 10))" by linarith
    then have hi': "n < 10 ^ nat (digits10 n)"
      using digits10_pos [of "n div 10"] by (simp add: d nat_add_distrib)
    from lo' hi' show ?thesis ..
  qed
qed


lemma adjusted_bounds:
  assumes "0 < x"
  shows "pow10 (adjusted x) \<le> x \<and> x < pow10 (adjusted x + 1)"
proof (cases "1 \<le> x")
  case True
  define n where "n = \<lfloor>x\<rfloor>"
  have n: "1 \<le> n" using True by (simp add: n_def)
  have a: "adjusted x = digits10 n - 1" using True by (simp add: adjusted_def n_def)
  from digits10_bounds [OF n] have lo: "10 ^ nat (digits10 n - 1) \<le> n"
    and hi: "n < 10 ^ nat (digits10 n)" by simp_all
  have d: "0 \<le> digits10 n - 1" using digits10_pos [of n] by simp
  have "pow10 (digits10 n - 1) = of_int (10 ^ nat (digits10 n - 1))"
    using d by (simp add: pow10_def)
  also have "\<dots> \<le> of_int n" using lo by (simp only: of_int_le_iff)
  also have "\<dots> \<le> x" by (simp add: n_def)
  finally have 1: "pow10 (adjusted x) \<le> x" by (simp add: a)
  have "n + 1 \<le> 10 ^ nat (digits10 n)" using hi by simp
  then have "of_int (n + 1) \<le> (of_int (10 ^ nat (digits10 n)) :: rat)"
    by (simp only: of_int_le_iff)
  moreover have "x < of_int (n + 1)" using floor_correct [of x] by (simp add: n_def)
  moreover have "pow10 (digits10 n) = of_int (10 ^ nat (digits10 n))"
    using digits10_pos [of n] by (simp add: pow10_def)
  ultimately have 2: "x < pow10 (adjusted x + 1)" by (simp add: a)
  from 1 2 show ?thesis ..
next
  case False
  define m where "m = \<lceil>1 / x\<rceil>"
  have y: "1 < 1 / x" using False assms by (simp add: field_simps)
  then have m2: "2 \<le> m" by (simp add: m_def le_ceiling_iff)
  then have n: "1 \<le> m - 1" by simp
  have a: "adjusted x = - digits10 (m - 1)" using False by (simp add: adjusted_def m_def)
  from digits10_bounds [OF n] have lo: "10 ^ nat (digits10 (m - 1) - 1) \<le> m - 1"
    and hi: "m - 1 < 10 ^ nat (digits10 (m - 1))" by simp_all
  have dpos: "1 \<le> digits10 (m - 1)" by (rule digits10_pos)
  have "1 / x \<le> of_int m" by (simp add: m_def)
  also have "of_int m \<le> (of_int (10 ^ nat (digits10 (m - 1))) :: rat)"
    using hi by (simp only: of_int_le_iff)
  finally have "1 / x \<le> 10 ^ nat (digits10 (m - 1))" by simp
  then have "1 / 10 ^ nat (digits10 (m - 1)) \<le> x"
    using assms by (simp add: field_simps)
  moreover have "pow10 (- digits10 (m - 1)) = 1 / 10 ^ nat (digits10 (m - 1))"
    using dpos by (simp add: pow10_def)
  ultimately have 1: "pow10 (adjusted x) \<le> x" by (simp add: a)
  have "of_int (m - 1) < 1 / x" using ceiling_correct [of "1 / x"] by (simp add: m_def)
  moreover have "(of_int (10 ^ nat (digits10 (m - 1) - 1)) :: rat) \<le> of_int (m - 1)"
    using lo by (simp only: of_int_le_iff)
  ultimately have "10 ^ nat (digits10 (m - 1) - 1) < 1 / x" by simp
  then have "x < 1 / 10 ^ nat (digits10 (m - 1) - 1)"
    using assms by (simp add: field_simps)
  moreover have "pow10 (- digits10 (m - 1) + 1) = 1 / 10 ^ nat (digits10 (m - 1) - 1)"
    using dpos by (cases "digits10 (m - 1) = 1") (simp_all add: pow10_def)
  ultimately have 2: "x < pow10 (adjusted x + 1)" by (simp add: a)
  from 1 2 show ?thesis ..
qed

lemma adjusted_eqI:
  assumes "pow10 a \<le> x" and "x < pow10 (a + 1)"
  shows "adjusted x = a"
proof -
  have "0 < x" using assms(1) pow10_pos [of a] by linarith
  from adjusted_bounds [OF this]
  have "pow10 (adjusted x) \<le> x" "x < pow10 (adjusted x + 1)" by simp_all
  with assms have "pow10 (adjusted x) < pow10 (a + 1)" "pow10 a < pow10 (adjusted x + 1)"
    by linarith+
  then show ?thesis by simp
qed

lemma adjusted_less:
  assumes "0 < x" and "x < pow10 k"
  shows "adjusted x < k"
proof -
  from adjusted_bounds [OF assms(1)] assms(2) have "pow10 (adjusted x) < pow10 k" by linarith
  then show ?thesis by simp
qed

lemma round_half_even_bounds:
  "of_int (round_half_even x) \<le> x + 1 / 2 \<and> x - 1 / 2 \<le> of_int (round_half_even x)"
proof -
  have f: "of_int \<lfloor>x\<rfloor> \<le> x" "x < of_int \<lfloor>x\<rfloor> + 1"
    using floor_correct [of x] by simp_all
  show ?thesis
    unfolding round_half_even_def Let_def
    using f by (simp split: if_splits) linarith
qed

lemma round_half_even_eqI:
  assumes "\<bar>x - of_int c\<bar> < 1 / 2"
  shows "round_half_even x = c"
proof -
  from round_half_even_bounds [of x] assms
  have "\<bar>(of_int (round_half_even x) :: rat) - of_int c\<bar> < 1" by linarith
  then have "\<bar>(of_int (round_half_even x - c) :: rat)\<bar> < of_int 1" by simp
  then have "\<bar>round_half_even x - c\<bar> < 1"
    by (simp only: of_int_abs [symmetric] of_int_less_iff)
  then show ?thesis by simp
qed


lemma round_half_even_of_int [simp]: "round_half_even (of_int k) = k"
  by (rule round_half_even_eqI) simp

lemma round_half_even_nonneg: "0 \<le> x \<Longrightarrow> 0 \<le> round_half_even x"
proof -
  assume "0 \<le> x"
  with round_half_even_bounds [of x] have "- 1 < (of_int (round_half_even x) :: rat)" by linarith
  then have "(of_int (- 1) :: rat) < of_int (round_half_even x)" by simp
  then have "- 1 < round_half_even x" by (simp only: of_int_less_iff)
  then show ?thesis by simp
qed

lemma decimal_round_abs:
  assumes "q \<noteq> 0"
  shows "\<bar>decimal_round q\<bar> =
     of_int (round_half_even (\<bar>q\<bar> / pow10 (max (adjusted \<bar>q\<bar> - 27) (- 1000026))))
       * pow10 (max (adjusted \<bar>q\<bar> - 27) (- 1000026))"
proof -
  have "0 \<le> \<bar>q\<bar> / pow10 (max (adjusted \<bar>q\<bar> - 27) (- 1000026))"
    by (simp add: less_imp_le)
  from round_half_even_nonneg [OF this] assms show ?thesis
    by (simp add: decimal_round_def Let_def abs_mult less_imp_le)
qed

lemma decimal_round_bound:
  assumes "\<bar>q\<bar> < pow10 k" and "0 \<le> k"
  shows "\<bar>decimal_round q\<bar> < pow10 (k + 1)"
proof (cases "q = 0")
  case True
  then show ?thesis by (simp add: decimal_round_def)
next
  case False
  define e where "e = max (adjusted \<bar>q\<bar> - 27) (- 1000026)"
  have pos: "0 < \<bar>q\<bar>" using False by simp
  from adjusted_less [OF pos assms(1)] assms(2) have "e \<le> k" by (simp add: e_def)
  then have pe: "pow10 e \<le> pow10 k" by simp
  have "of_int (round_half_even (\<bar>q\<bar> / pow10 e)) \<le> \<bar>q\<bar> / pow10 e + 1 / 2"
    using round_half_even_bounds [of "\<bar>q\<bar> / pow10 e"] by simp
  then have "of_int (round_half_even (\<bar>q\<bar> / pow10 e)) * pow10 e
      \<le> (\<bar>q\<bar> / pow10 e + 1 / 2) * pow10 e"
    by (rule mult_right_mono) (simp add: less_imp_le)
  also have "\<dots> = \<bar>q\<bar> + pow10 e / 2"
    using pow10_pos [of e] by (simp add: field_simps)
  also have "\<dots> < pow10 k + pow10 k" using assms(1) pe pow10_pos [of e] by linarith
  also have "\<dots> \<le> 10 * pow10 k" using pow10_pos [of k] by linarith
  also have "\<dots> = pow10 (k + 1)" by (simp add: pow10_add pow10_1)
  finally show ?thesis
    using decimal_round_abs [OF False] by (simp add: e_def)
qed

lemma decimal_fix_bounded:
  assumes "\<bar>q\<bar> < pow10 k" and "0 \<le> k" and "k \<le> 999998"
  shows "\<exists>r. decimal_fix q = Inr r \<and> \<bar>r\<bar> < pow10 (k + 1)"
proof -
  have b: "\<bar>decimal_round q\<bar> < pow10 (k + 1)"
    by (rule decimal_round_bound [OF assms(1,2)])
  have "adjusted \<bar>decimal_round q\<bar> \<le> 999999" if "decimal_round q \<noteq> 0"
  proof -
    from that have "0 < \<bar>decimal_round q\<bar>" by simp
    from adjusted_less [OF this b] assms(3) show ?thesis by simp
  qed
  with b show ?thesis
    by (auto simp add: decimal_fix_def Let_def)
qed

lemma decimal_fix_zero [simp]: "decimal_fix 0 = Inr 0"
  by (simp add: decimal_fix_def decimal_round_def)

lemma decimal_fix_eqI:
  assumes lo: "pow10 a \<le> q" and hi: "q < pow10 (a + 1)"
    and range: "- 999999 \<le> a" "a \<le> 999997"
    and c: "\<bar>q / pow10 (a - 27) - of_int c\<bar> < 1 / 2"
  shows "decimal_fix q = Inr (of_int c * pow10 (a - 27))"
proof -
  have pos: "0 < q" using lo pow10_pos [of a] by linarith
  then have absq: "\<bar>q\<bar> = q" by simp
  have adj: "adjusted q = a" by (rule adjusted_eqI [OF lo hi])
  have e: "max (a - 27) (- 1000026) = a - 27" using range by simp
  have r: "decimal_round q = of_int c * pow10 (a - 27)"
    using pos by (simp add: decimal_round_def Let_def absq adj e round_half_even_eqI [OF c])
  have "\<bar>q\<bar> < pow10 (a + 1)" using hi absq by simp
  moreover have "0 \<le> a + 1 \<or> a + 1 < 0" by linarith
  ultimately have "\<bar>decimal_round q\<bar> < pow10 999999"
  proof -
    have "pow10 (a + 1) \<le> pow10 (max (a + 1) 0)" by simp
    with \<open>\<bar>q\<bar> < pow10 (a + 1)\<close> have "\<bar>q\<bar> < pow10 (max (a + 1) 0)"
      by (rule less_le_trans)
    from decimal_round_bound [OF this] have "\<bar>decimal_round q\<bar> < pow10 (max (a + 1) 0 + 1)"
      by simp
    also have "\<dots> \<le> pow10 999999" using range by simp
    finally show ?thesis .
  qed
  then have "adjusted \<bar>decimal_round q\<bar> < 999999" if "decimal_round q \<noteq> 0"
    using that adjusted_less [of "\<bar>decimal_round q\<bar>" 999999] by simp
  then show ?thesis
    by (auto simp add: decimal_fix_def Let_def r [symmetric])
qed

lemma decimal_fix_exact:
  assumes q: "q = of_int c * pow10 e" and c: "\<bar>c\<bar> < 10 ^ 28"
    and range: "- 1000026 \<le> e" "e \<le> 999970"
  shows "decimal_fix q = Inr q"
proof (cases "q = 0")
  case True
  then show ?thesis by simp
next
  case False
  define e' where "e' = max (adjusted \<bar>q\<bar> - 27) (- 1000026)"
  have pos: "0 < \<bar>q\<bar>" using False by simp
  have "\<bar>q\<bar> = of_int \<bar>c\<bar> * pow10 e" by (simp add: q abs_mult less_imp_le)
  also have "\<dots> < of_int (10 ^ 28) * pow10 e"
    using c by (intro mult_strict_right_mono) (simp_all only: of_int_less_iff pow10_pos)
  also have "\<dots> = pow10 (e + 28)"
  proof -
    have "pow10 28 = 10 ^ 28" by (simp add: pow10_def)
    then show ?thesis by (simp add: pow10_add)
  qed
  finally have bound: "\<bar>q\<bar> < pow10 (e + 28)" .
  from adjusted_less [OF pos bound] range have le: "e' \<le> e" by (simp add: e'_def)
  define d where "d = nat (e - e')"
  have d: "e = e' + int d" using le by (simp add: d_def)
  have "\<bar>q\<bar> / pow10 e' = of_int \<bar>c\<bar> * pow10 (int d)"
    using \<open>\<bar>q\<bar> = of_int \<bar>c\<bar> * pow10 e\<close> pow10_pos [of e']
    by (simp add: d pow10_add field_simps)
  also have "\<dots> = of_int (\<bar>c\<bar> * 10 ^ d)" by (simp add: pow10_nat)
  finally have x: "\<bar>q\<bar> / pow10 e' = of_int (\<bar>c\<bar> * 10 ^ d)" .
  have r: "decimal_round q = q"
  proof -
    have "decimal_round q = sgn q * of_int (round_half_even (\<bar>q\<bar> / pow10 e')) * pow10 e'"
      using False by (simp add: decimal_round_def Let_def e'_def)
    also have "\<dots> = sgn q * (\<bar>q\<bar> / pow10 e') * pow10 e'"
      by (simp only: x round_half_even_of_int)
    also have "\<dots> = sgn q * \<bar>q\<bar>" by simp
    also have "\<dots> = q" by (rule sgn_mult_abs)
    finally show ?thesis .
  qed
  have "adjusted \<bar>q\<bar> < e + 28" by (rule adjusted_less [OF pos bound])
  with range show ?thesis
    by (simp add: decimal_fix_def Let_def r)
qed

lemma decimal_fix_numeral [simp]:
  "numeral w < (10 :: rat) ^ 28 \<Longrightarrow> decimal_fix (numeral w) = Inr (numeral w)"
  using decimal_fix_exact [of "numeral w" "numeral w" 0]
  by (simp add: pow10_def)

lemma decimal_fix_one [simp]: "decimal_fix 1 = Inr 1"
  using decimal_fix_exact [of 1 1 0] by (simp add: pow10_def)

lemma decimal_add_bounded:
  assumes "\<bar>a\<bar> < pow10 (int max_str_digits)" and "\<bar>b\<bar> < pow10 (int max_str_digits)"
  shows "\<exists>r. decimal_add a b = Inr r"
proof -
  define k where "k = int max_str_digits"
  have k: "0 \<le> k + 1" "k + 1 \<le> 999998" by (simp_all add: k_def max_str_digits_def)
  have "\<bar>a + b\<bar> < pow10 k + pow10 k" using assms unfolding k_def by linarith
  also have "\<dots> \<le> 10 * pow10 k" using pow10_pos [of k] by linarith
  also have "\<dots> = pow10 (k + 1)" by (simp add: pow10_add pow10_1)
  finally have "\<bar>a + b\<bar> < pow10 (k + 1)" .
  from decimal_fix_bounded [OF this k] show ?thesis
    by (auto simp add: decimal_add_def)
qed

lemma decimal_add_zero_zero [simp]: "decimal_add 0 0 = Inr 0"
  by (simp add: decimal_add_def)

lemma decimal_fix_Inr: "decimal_fix q = Inr r \<Longrightarrow> decimal_round q = r"
  by (auto simp add: decimal_fix_def Let_def split: if_splits)

lemma decimal_fix_cases: "decimal_fix q = Inl Overflow \<or> decimal_fix q = Inr (decimal_round q)"
  by (simp add: decimal_fix_def Let_def)

lemma decimal_add_integral:
  assumes "of_int \<lfloor>a\<rfloor> = a" and "of_int \<lfloor>b\<rfloor> = b" and "\<bar>a + b\<bar> < 10 ^ 28"
  shows "decimal_add a b = Inr (a + b)"
proof -
  have s: "a + b = of_int (\<lfloor>a\<rfloor> + \<lfloor>b\<rfloor>)"
    by (simp only: of_int_add assms(1,2))
  have "(of_int \<bar>\<lfloor>a\<rfloor> + \<lfloor>b\<rfloor>\<bar> :: rat) < of_int (10 ^ 28)"
    using assms(3) unfolding s by simp
  then have "\<bar>\<lfloor>a\<rfloor> + \<lfloor>b\<rfloor>\<bar> < 10 ^ 28"
    by (simp only: of_int_less_iff)
  from decimal_fix_exact [of "a + b" "\<lfloor>a\<rfloor> + \<lfloor>b\<rfloor>" 0, OF _ this] s show ?thesis
    by (simp add: decimal_add_def pow10_def)
qed

lemma decimal_fix_Inl: "decimal_fix q = Inl e \<Longrightarrow> e = Overflow"
  by (auto simp add: decimal_fix_def Let_def split: if_splits)

lemma decimal_fix_in_range:
  assumes "\<bar>q\<bar> < pow10 999998"
  shows "decimal_fix q = Inr (decimal_round q)"
proof -
  from decimal_fix_bounded [OF assms] obtain r where "decimal_fix q = Inr r"
    by auto
  with decimal_fix_Inr [OF this] show ?thesis by simp
qed

lemma decimal_round_zero [simp]: "decimal_round 0 = 0"
  by (simp add: decimal_round_def)

lemma decimal_round_numeral [simp]:
  "numeral w < (10 :: rat) ^ 28 \<Longrightarrow> decimal_round (numeral w) = numeral w"
  by (rule decimal_fix_Inr) simp

lemma small_in_range: "\<bar>q\<bar> < 10 ^ 28 \<Longrightarrow> \<bar>q\<bar> < pow10 999998"
proof -
  assume "\<bar>q\<bar> < 10 ^ 28"
  also have "(10 :: rat) ^ 28 = pow10 28" by (simp add: pow10_def)
  also have "pow10 28 \<le> pow10 999998" by simp
  finally show ?thesis .
qed

subsection \<open>Results, decoding and the store\<close>

lemma rbind_Inr_iff: "rbind m f = Inr y \<longleftrightarrow> (\<exists>x. m = Inr x \<and> f x = Inr y)"
  by (cases m) (simp_all add: rbind_def)

lemma rbind_Inr: "m = Inr x \<Longrightarrow> rbind m f = f x"
  by (simp add: rbind_def)

lemma rbind_Inl: "m = Inl e \<Longrightarrow> rbind m f = Inl e"
  by (simp add: rbind_def)

lemma py_assert_Inr_iff: "py_assert b = Inr u \<longleftrightarrow> b"
  by (simp add: py_assert_def)

lemma data_at_Inr_iff: "data_at ev i = Inr x \<longleftrightarrow> i < length (data ev) \<and> x = data ev ! i"
  by (auto simp add: data_at_def)

lemma isl_iff_not_Inr: "isl r \<longleftrightarrow> (\<forall>x. r \<noteq> Inr x)"
  by (cases r) simp_all

lemma isl_unless: "(\<And>x. r = Inr x \<Longrightarrow> False) \<Longrightarrow> isl r"
  by (cases r) auto

lemma int_at_length: "int_at ev i = Inr n \<Longrightarrow> i < length (data ev)"
  by (auto simp add: int_at_def rbind_Inr_iff data_at_Inr_iff)

lemma decimal_at_length: "decimal_at ev i = Inr a \<Longrightarrow> i < length (data ev)"
  by (auto simp add: decimal_at_def rbind_Inr_iff dest: int_at_length)

lemma decimal_at_bounded:
  "decimal_at ev i = Inr a \<Longrightarrow> \<bar>a\<bar> < pow10 (int max_str_digits)"
proof -
  assume "decimal_at ev i = Inr a"
  then obtain n where "\<bar>n\<bar> < 10 ^ max_str_digits" and a: "a = of_int n"
    by (auto simp add: decimal_at_def rbind_Inr_iff not_le split: if_splits)
  then have "(of_int \<bar>n\<bar> :: rat) < of_int (10 ^ max_str_digits)"
    by (simp only: of_int_less_iff)
  then show ?thesis by (simp add: a pow10_nat)
qed

lemma decimal_at_small:
  "decimal_at ev i =
     rbind (int_at ev i) (\<lambda>n.
       if \<bar>n\<bar> < 10 ^ 28 then Inr (of_int n)
       else if 10 ^ max_str_digits \<le> \<bar>n\<bar> then Inl ValueError else Inr (of_int n))"
proof -
  have "(10 :: int) ^ 28 \<le> 10 ^ max_str_digits"
    by (rule power_increasing) (simp_all add: max_str_digits_def)
  then have "\<not> 10 ^ max_str_digits \<le> \<bar>n\<bar>" if "\<bar>n\<bar> < 10 ^ 28" for n :: int
    using that by linarith
  then show ?thesis
    by (auto simp add: decimal_at_def rbind_def split: sum.splits)
qed

lemma symbol_at_length: "symbol_at c ev i = Inr t \<Longrightarrow> i < length (data ev)"
  by (auto simp add: symbol_at_def rbind_Inr_iff data_at_Inr_iff)

lemma original_collateral_at_Inr:
  "original_collateral_at c ev i j = Inr (t, a)
     \<longleftrightarrow> symbol_at c ev i = Inr t \<and> decimal_at ev j = Inr a"
  by (auto simp add: original_collateral_at_def rbind_Inr_iff)

lemma original_collateral_at_KeyError:
  "symbol_at c ev i = Inl KeyError \<Longrightarrow> original_collateral_at c ev i j = Inl KeyError"
  by (simp add: original_collateral_at_def rbind_def)

lemma original_collateral_at_not_KeyError:
  "symbol_at c ev i \<noteq> Inl KeyError \<Longrightarrow> j \<ge> length (data ev)
   \<Longrightarrow> isl (original_collateral_at c ev i j) \<and> original_collateral_at c ev i j \<noteq> Inl KeyError"
  by (cases "symbol_at c ev i")
    (auto simp add: original_collateral_at_def rbind_def decimal_at_def int_at_def data_at_def)

lemma amount_of_init: "amount_of TokenAmounts_init token = 0"
  by (simp add: amount_of_def TokenAmounts_init_def)

lemma amount_of_single:
  "amount_of (TokenAmounts_single t a) token = (if token = t then a else 0)"
  by (simp add: amount_of_def TokenAmounts_single_def TokenAmounts_init_def)

lemma collateral_items_keys:
  "collateral_items l tokens = Inr items \<Longrightarrow> map fst items = tokens"
  by (induction tokens arbitrary: items) (auto simp add: rbind_Inr_iff)

lemma collateral_items_sums:
  "collateral_items l tokens = Inr items \<Longrightarrow> (token, amount) \<in> set items \<Longrightarrow>
   decimal_add (amount_of (original_collateral l) token)
     (amount_of (borrowed_collateral l) token) = Inr amount"
  by (induction tokens arbitrary: items) (auto simp add: rbind_Inr_iff)

lemma collateral_items_cong:
  "original_collateral l' = original_collateral l \<Longrightarrow>
   borrowed_collateral l' = borrowed_collateral l \<Longrightarrow>
   collateral_items l' tokens = collateral_items l tokens"
  by (induction tokens) simp_all

lemma collateral_items_bounded:
  assumes "\<And>token. \<bar>amount_of (original_collateral l) token\<bar> < pow10 (int max_str_digits)"
    and "\<And>token. \<bar>amount_of (borrowed_collateral l) token\<bar> < pow10 (int max_str_digits)"
  shows "\<exists>items. collateral_items l tokens = Inr items"
proof (induction tokens)
  case Nil
  show ?case by simp
next
  case (Cons token tokens)
  from decimal_add_bounded [OF assms(1) assms(2), of token token] Cons show ?case
    by (auto simp add: rbind_def)
qed

lemma collateral_items_zero:
  assumes "\<And>token. amount_of (original_collateral l) token = 0"
    and "\<And>token. amount_of (borrowed_collateral l) token = 0"
  shows "collateral_items l tokens = Inr (map (\<lambda>token. (token, 0)) tokens)"
  by (induction tokens) (simp_all add: assms rbind_def)

lemma recompute_collateral_Inr:
  "recompute_collateral c l = Inr l' \<longleftrightarrow>
     (\<exists>items. collateral_items l (map fst (TOKEN_DECIMAL_FACTORS c)) = Inr items
        \<and> l' = l\<lparr>collateral := (collateral l)\<lparr>token_amounts := items\<rparr>\<rparr>)"
  by (auto simp add: recompute_collateral_def rbind_Inr_iff)

lemma recompute_fields:
  assumes "recompute_collateral c l = Inr l'"
  shows "debt l' = debt l" "user l' = user l" "debt_category l' = debt_category l"
    "original_collateral l' = original_collateral l"
    "borrowed_collateral l' = borrowed_collateral l"
  using assms by (auto simp add: recompute_collateral_Inr)

lemma recompute_collateral_sum:
  assumes "recompute_collateral c l = Inr l'"
    and "token \<in> fst ` set (TOKEN_DECIMAL_FACTORS c)"
  shows "decimal_add (amount_of (original_collateral l) token)
     (amount_of (borrowed_collateral l) token) = Inr (amount_of (collateral l') token)"
proof -
  from assms(1) obtain items where
    items: "collateral_items l (map fst (TOKEN_DECIMAL_FACTORS c)) = Inr items"
    and l': "l' = l\<lparr>collateral := (collateral l)\<lparr>token_amounts := items\<rparr>\<rparr>"
    by (auto simp add: recompute_collateral_Inr)
  from collateral_items_keys [OF items] assms(2) have "token \<in> fst ` set items"
    by (metis set_map)
  then obtain amount where m: "map_of items token = Some amount"
    by (metis domD dom_map_of_conv_image_fst)
  then have "(token, amount) \<in> set items" by (rule map_of_SomeD)
  from collateral_items_sums [OF items this] m show ?thesis
    by (simp add: l' amount_of_def)
qed

lemma recompute_collateral_bounded:
  assumes "\<And>token. \<bar>amount_of (original_collateral l) token\<bar> < pow10 (int max_str_digits)"
    and "\<And>token. \<bar>amount_of (borrowed_collateral l) token\<bar> < pow10 (int max_str_digits)"
  shows "\<exists>l'. recompute_collateral c l = Inr l'"
  using collateral_items_bounded [OF assms, of "map fst (TOKEN_DECIMAL_FACTORS c)"]
  by (auto simp add: recompute_collateral_def rbind_def)

lemma recompute_collateral_zero:
  assumes "\<And>token. amount_of (original_collateral l) token = 0"
    and "\<And>token. amount_of (borrowed_collateral l) token = 0"
  shows "\<exists>l'. recompute_collateral c l = Inr l' \<and> (\<forall>token. amount_of (collateral l') token = 0)"
proof -
  have z: "amount_of x token = 0" if "snd ` set (token_amounts x) \<subseteq> {0}" for x token
    using that by (auto simp add: amount_of_def split: option.splits dest!: map_of_SomeD)
  have "amount_of ((collateral l)\<lparr>token_amounts := map (\<lambda>token. (token, 0)) tokens\<rparr>) token = 0"
    for tokens token
    by (rule z) auto
  then show ?thesis
    by (simp add: recompute_collateral_def collateral_items_zero [OF assms] rbind_def
        del: map_map)
qed

lemma amount_of_single_bounded:
  "\<bar>a\<bar> < pow10 (int max_str_digits) \<Longrightarrow> \<bar>amount_of (TokenAmounts_single t a) token\<bar> < pow10 (int max_str_digits)"
  by (simp add: amount_of_single)

lemma amount_of_init_bounded: "\<bar>amount_of TokenAmounts_init token\<bar> < pow10 (int max_str_digits)"
  by (simp add: amount_of_init)

lemma set_update_subset: "set (AList.update k v al) \<subseteq> insert (k, v) (set al)"
  by (induction al) auto

lemma get_loan_set_loan:
  "get_loan (set_loan self k l) k' = (if k' = k then Inr l else get_loan self k')"
  by (simp add: get_loan_def set_loan_def update_conv')

lemma decimal_at_integral: "decimal_at ev i = Inr a \<Longrightarrow> of_int \<lfloor>a\<rfloor> = a"
  by (auto simp add: decimal_at_def rbind_Inr_iff split: if_splits)

lemma layout_amount:
  assumes "(case original_collateral_at c ev 14 17 of
          Inl KeyError \<Rightarrow> original_collateral_at c ev 13 16
        | other \<Rightarrow> other) = Inr (t, a)"
  shows "\<exists>j. decimal_at ev j = Inr a"
proof -
  from assms have "original_collateral_at c ev 14 17 = Inr (t, a)
      \<or> original_collateral_at c ev 13 16 = Inr (t, a)"
    by (auto split: sum.splits error.splits)
  then show ?thesis
    by (auto simp add: original_collateral_at_Inr)
qed

subsection \<open>What a successful run of a handler has read and checked\<close>

lemma new_loan_reads:
  assumes "process_new_loan_event c self ev = Inr self'"
  shows "\<exists>loan_id u debt_token debt_amount borrowed_token borrowed_amount category t a.
      int_at ev 0 = Inr loan_id \<and> data_at ev 1 = Inr u
    \<and> symbol_at c ev 2 = Inr debt_token \<and> decimal_at ev 4 = Inr debt_amount
    \<and> symbol_at c ev 6 = Inr borrowed_token \<and> decimal_at ev 7 = Inr borrowed_amount
    \<and> int_at ev 10 = Inr category
    \<and> (case original_collateral_at c ev 14 17 of
          Inl KeyError \<Rightarrow> original_collateral_at c ev 13 16
        | other \<Rightarrow> other) = Inr (t, a)"
  using assms
  by (auto simp add: process_new_loan_event_def rbind_Inr_iff)

lemma new_loan_result:
  assumes "int_at ev 0 = Inr loan_id" and "data_at ev 1 = Inr u"
    and "symbol_at c ev 2 = Inr debt_token" and "decimal_at ev 4 = Inr debt_amount"
    and "symbol_at c ev 6 = Inr borrowed_token" and "decimal_at ev 7 = Inr borrowed_amount"
    and "int_at ev 10 = Inr category"
  shows "process_new_loan_event c self ev =
     rbind (case original_collateral_at c ev 14 17 of
              Inl KeyError \<Rightarrow> original_collateral_at c ev 13 16
            | other \<Rightarrow> other)
       (\<lambda>(t, a).
          rbind (recompute_collateral c
             (HashstackLoanEntity_init u category
                \<lparr>original_collateral := TokenAmounts_single t a,
                 borrowed_collateral := TokenAmounts_single borrowed_token borrowed_amount\<rparr>))
            (\<lambda>l. Inr (set_loan self loan_id
               (l\<lparr>debt := TokenAmounts_single debt_token debt_amount\<rparr>))))"
  using assms
  by (simp add: process_new_loan_event_def rbind_Inr Let_def)

lemma new_loan_recomputes:
  assumes "decimal_at ev j = Inr a" and "decimal_at ev 7 = Inr borrowed_amount"
  shows "\<exists>l. recompute_collateral c
             (HashstackLoanEntity_init u category
                \<lparr>original_collateral := TokenAmounts_single t a,
                 borrowed_collateral := TokenAmounts_single borrowed_token borrowed_amount\<rparr>)
           = Inr l"
  by (rule recompute_collateral_bounded)
    (simp_all add: amount_of_single_bounded decimal_at_bounded [OF assms(1)]
      decimal_at_bounded [OF assms(2)])

lemma new_loan_stored:
  assumes "process_new_loan_event c self ev = Inr self'" and "int_at ev 0 = Inr loan_id"
  shows "\<exists>l t a. get_loan self' loan_id = Inr l
           \<and> data_at ev 1 = Inr (user l)
           \<and> (case original_collateral_at c ev 14 17 of
                 Inl KeyError \<Rightarrow> original_collateral_at c ev 13 16
               | other \<Rightarrow> other) = Inr (t, a)
           \<and> original_collateral l = TokenAmounts_single t a"
  using assms
  by (auto simp add: process_new_loan_event_def rbind_Inr_iff Let_def get_loan_set_loan
      recompute_collateral_Inr HashstackLoanEntity_init_def)

lemma rewrite_reads:
  assumes "rewrite_original_collateral c self ev i = Inr self'"
  shows "\<exists>loan_id t a l. int_at ev i = Inr loan_id \<and> symbol_at c ev 0 = Inr t
     \<and> decimal_at ev 3 = Inr a \<and> get_loan self loan_id = Inr l"
  using assms
  by (auto simp add: rewrite_original_collateral_def rbind_Inr_iff)

lemma rewrite_original_collateral_stored:
  assumes "rewrite_original_collateral c self ev i = Inr self'"
    and "int_at ev i = Inr loan_id" and "get_loan self loan_id = Inr l"
  shows "\<exists>l' t a. get_loan self' loan_id = Inr l' \<and> user l' = user l
           \<and> symbol_at c ev 0 = Inr t \<and> decimal_at ev 3 = Inr a
           \<and> original_collateral l' = TokenAmounts_single t a"
  using assms
  by (auto simp add: rewrite_original_collateral_def rbind_Inr_iff Let_def get_loan_set_loan
      recompute_collateral_Inr)

lemma loan_withdrawal_reads:
  assumes "process_loan_withdrawal_event c self ev = Inr self'"
  shows "\<exists>loan_id l debt_token debt_amount borrowed_token borrowed_amount category.
      int_at ev 0 = Inr loan_id \<and> get_loan self loan_id = Inr l \<and> data_at ev 1 = Inr (user l)
    \<and> symbol_at c ev 2 = Inr debt_token \<and> decimal_at ev 4 = Inr debt_amount
    \<and> symbol_at c ev 6 = Inr borrowed_token \<and> decimal_at ev 7 = Inr borrowed_amount
    \<and> int_at ev 10 = Inr category"
  using assms
  by (auto simp add: process_loan_withdrawal_event_def rbind_Inr_iff py_assert_Inr_iff)

lemma loan_repaid_reads:
  assumes "process_loan_repaid_event c self ev = Inr self'"
  shows "\<exists>loan_id l debt_token borrowed_token category.
      int_at ev 0 = Inr loan_id \<and> get_loan self loan_id = Inr l \<and> data_at ev 1 = Inr (user l)
    \<and> symbol_at c ev 2 = Inr debt_token
    \<and> symbol_at c ev 6 = Inr borrowed_token \<and> decimal_at ev 7 = Inr 0
    \<and> int_at ev 10 = Inr category"
  using assms
  by (auto simp add: process_loan_repaid_event_def rbind_Inr_iff py_assert_Inr_iff Let_def)

lemma loan_repaid_result:
  assumes "int_at ev 0 = Inr loan_id"
    and "data_at ev 1 = Inr (user l)"
    and "get_loan self loan_id = Inr l"
    and "symbol_at c ev 2 = Inr debt_token"
    and "symbol_at c ev 6 = Inr borrowed_collateral_token"
    and "decimal_at ev 7 = Inr 0"
    and "int_at ev 10 = Inr category"
    and bounded: "\<And>token. \<bar>amount_of (original_collateral l) token\<bar> < pow10 (int max_str_digits)"
  shows "\<exists>self' l'. process_loan_repaid_event c self ev = Inr self'
         \<and> get_loan self' loan_id = Inr l'
         \<and> (\<forall>token. amount_of (debt l') token = 0)
         \<and> (\<forall>token. amount_of (borrowed_collateral l') token = 0)
         \<and> original_collateral l' = original_collateral l"
proof -
  define l1 where
    "l1 = l\<lparr>borrowed_collateral := TokenAmounts_single borrowed_collateral_token 0\<rparr>"
  have "\<exists>l2. recompute_collateral c l1 = Inr l2"
    by (rule recompute_collateral_bounded) (simp_all add: l1_def bounded amount_of_single)
  then obtain l2 where l2: "recompute_collateral c l1 = Inr l2" ..
  note fields = recompute_fields [OF l2]
  have "process_loan_repaid_event c self ev
      = Inr (set_loan self loan_id
          (l2\<lparr>debt := TokenAmounts_single debt_token 0, debt_category := category\<rparr>))"
    using assms(1-7) l2
    by (simp add: process_loan_repaid_event_def rbind_Inr py_assert_def Let_def l1_def)
  then show ?thesis
    using fields by (simp add: get_loan_set_loan amount_of_single l1_def)
qed

lemma liquidated_reads:
  assumes "process_liquidated_event c self ev = Inr self'"
  shows "\<exists>loan_id l debt_token borrowed_token category.
      int_at ev 0 = Inr loan_id \<and> get_loan self loan_id = Inr l \<and> data_at ev 1 = Inr (user l)
    \<and> symbol_at c ev 2 = Inr debt_token
    \<and> symbol_at c ev 6 = Inr borrowed_token \<and> decimal_at ev 7 = Inr 0
    \<and> int_at ev 10 = Inr category"
  using assms
  by (auto simp add: process_liquidated_event_def rbind_Inr_iff py_assert_Inr_iff Let_def)

lemma loan_swap_reads:
  assumes "process_loan_swap_event c self ev = Inr self'"
  shows "\<exists>loan_id l debt_token debt_amount borrowed_token borrowed_amount category.
      int_at ev 0 = Inr loan_id \<and> get_loan self loan_id = Inr l \<and> data_at ev 1 = Inr (user l)
    \<and> int_at ev 14 = Inr loan_id \<and> data_at ev 15 = Inr (user l)
    \<and> symbol_at c ev 16 = Inr debt_token \<and> decimal_at ev 18 = Inr debt_amount
    \<and> symbol_at c ev 20 = Inr borrowed_token \<and> decimal_at ev 21 = Inr borrowed_amount
    \<and> int_at ev 24 = Inr category
    \<and> set (token_amounts (debt l))
        = set (token_amounts (TokenAmounts_single debt_token debt_amount))"
  using assms
  by (auto simp add: process_loan_swap_event_def rbind_Inr_iff py_assert_Inr_iff Let_def
      recompute_collateral_Inr)

subsection \<open>The scenarios, evaluated\<close>

lemmas decode_defs =
  int_at_def decimal_at_small symbol_at_def data_at_def get_symbol_def int16_def hex_digit_def
  rbind_def py_assert_def

lemmas state_defs =
  get_loan_def set_loan_def recompute_collateral_def decimal_add_def TokenAmounts_single_def
  TokenAmounts_init_def HashstackLoanEntity_init_def HashstackState_init_def amount_of_def

lemma scenario_new_loan:
  "process_new_loan_event scenario_constants (HashstackState_init None) scenario_new_loan_event
     = Inr \<lparr>loan_entities = [(7, scenario_loan_7)], verbose_user = None\<rparr>"
  by (simp add: process_new_loan_event_def original_collateral_at_def scenario_new_loan_event_def
      scenario_constants_def scenario_loan_7_def decode_defs state_defs)

lemma scenario_alternate_new_loan:
  "process_new_loan_event scenario_constants (HashstackState_init None)
       scenario_alternate_new_loan_event
     = Inr \<lparr>loan_entities = [(7, scenario_loan_7)], verbose_user = None\<rparr>"
  by (simp add: process_new_loan_event_def original_collateral_at_def
      scenario_alternate_new_loan_event_def scenario_loan_7_def scenario_constants_def
      decode_defs state_defs)

lemma scenario_truncated_new_loan:
  "original_collateral_at scenario_constants scenario_truncated_new_loan_event 14 17
     = Inl IndexError"
  "original_collateral_at scenario_constants scenario_truncated_new_loan_event 13 16
     = Inr (''B'', 50)"
  "process_new_loan_event scenario_constants (HashstackState_init None)
       scenario_truncated_new_loan_event = Inl IndexError"
  by (simp_all add: process_new_loan_event_def original_collateral_at_def
      scenario_truncated_new_loan_event_def scenario_constants_def decode_defs state_defs)

lemma scenario_second_new_loan:
  "process_new_loan_event scenario_constants scenario_state scenario_second_new_loan_event
     = Inr \<lparr>loan_entities =
              [(7, scenario_replacing_loan), (8, scenario_loan_8), (9, scenario_loan_9)],
            verbose_user = None\<rparr>"
  by (simp add: process_new_loan_event_def original_collateral_at_def
      scenario_second_new_loan_event_def scenario_replacing_loan_def scenario_state_def
      scenario_constants_def decode_defs state_defs)

lemma scenario_stored_7: "get_loan scenario_state 7 = Inr scenario_loan_7"
  by (simp add: get_loan_def scenario_state_def)

lemma scenario_collateral_added:
  "replay scenario_constants \<lparr>loan_entities = [(7, scenario_loan_7)], verbose_user = None\<rparr>
     [scenario_collateral_added_event]
   = Inr \<lparr>loan_entities =
        [(7, scenario_loan_7
              \<lparr>collateral := \<lparr>token_amounts = [(''A'', 0), (''B'', 80)]\<rparr>,
               original_collateral := \<lparr>token_amounts = [(''B'', 60)]\<rparr>\<rparr>)],
      verbose_user = None\<rparr>"
  by (simp add: process_event_def EVENTS_METHODS_MAPPING_def process_collateral_added_event_def
      rewrite_original_collateral_def scenario_collateral_added_event_def
      scenario_constants_def scenario_loan_7_def decode_defs state_defs)

subsection \<open>The order of the events\<close>

lemma map_sort_key: "map f (sort_key f xs) = sort (map f xs)"
  by (rule properties_for_sort [symmetric]) simp_all

text \<open>
  Claim C1, as amended. \<open>get_events\<close> sorts the batch ascending on the columns
  (\<open>block_number\<close>, \<open>transaction_hash\<close>, \<open>order\<close>): the result is sorted on them, it is
  a rearrangement of the batch, and rows with equal columns keep their order of arrival.
  The rank of the event types is \<open>new_loan\<close> 0, \<open>loan_swap\<close> 1, \<open>liquidated\<close> 2,
  \<open>loan_withdrawal\<close> 3, \<open>loan_repaid\<close> 4, \<open>loan_interest_deducted\<close> 5,
  \<open>collateral_added\<close> 6, \<open>collateral_withdrawal\<close> 7. Two permutations of one batch give
  the same sequence of sort columns, and the same sequence of rows when no two different
  rows of the batch agree on the three columns.
\<close>

theorem get_events_sorted:
  "sorted (map sort_columns (get_events events))
   \<and> mset (get_events events) = mset (map with_order events)
   \<and> (\<forall>k. filter (\<lambda>ev. sort_columns ev = k) (get_events events)
          = filter (\<lambda>ev. sort_columns ev = k) (map with_order events))
   \<and> map order_of_key_name
        [''new_loan'', ''loan_swap'', ''liquidated'', ''loan_withdrawal'', ''loan_repaid'',
         ''loan_interest_deducted'', ''collateral_added'', ''collateral_withdrawal'']
      = map Some [0, 1, 2, 3, 4, 5, 6, 7]
   \<and> (mset events' = mset events
      \<longrightarrow> map sort_columns (get_events events') = map sort_columns (get_events events))
   \<and> (mset events' = mset events \<and> inj_on sort_columns (set (map with_order events))
      \<longrightarrow> get_events events' = get_events events)"
proof -
  have stable: "filter (\<lambda>ev. sort_columns ev = k) (get_events events)
          = filter (\<lambda>ev. sort_columns ev = k) (map with_order events)" for k
    unfolding get_events_def by (rule sort_key_stable)
  have ranks: "map order_of_key_name
        [''new_loan'', ''loan_swap'', ''liquidated'', ''loan_withdrawal'', ''loan_repaid'',
         ''loan_interest_deducted'', ''collateral_added'', ''collateral_withdrawal'']
      = map Some [0, 1, 2, 3, 4, 5, 6, 7]"
    by (simp add: order_of_key_name_def)
  have keys: "map sort_columns (get_events events') = map sort_columns (get_events events)"
    if "mset events' = mset events"
  proof -
    have "mset (map sort_columns (map with_order events'))
        = mset (map sort_columns (map with_order events))"
      using that by (metis mset_map)
    then have "sort (map sort_columns (map with_order events'))
        = sort (map sort_columns (map with_order events))"
      by (intro properties_for_sort) simp_all
    then show ?thesis by (simp only: get_events_def map_sort_key)
  qed
  have same: "get_events events' = get_events events"
    if "mset events' = mset events" and "inj_on sort_columns (set (map with_order events))"
  proof -
    have m: "mset (map with_order events') = mset (map with_order events)"
      using that(1) by (metis mset_map)
    then have "set (map with_order events') = set (map with_order events)"
      by (rule mset_eq_setD)
    with that(2) have "inj_on sort_columns (set (map with_order events'))" by simp
    with m show ?thesis
      unfolding get_events_def by (rule sort_key_eq_sort_key)
  qed
  show ?thesis
    using stable ranks keys same by (simp add: get_events_def)
qed

theorem get_events_sorted_witness:
  "get_events [scenario_raw_event_a, scenario_raw_event_c]
     = [with_order scenario_raw_event_c, with_order scenario_raw_event_a]
   \<and> get_events [scenario_raw_event_c, scenario_raw_event_a]
     = get_events [scenario_raw_event_a, scenario_raw_event_c]"
proof -
  have perm: "mset [scenario_raw_event_c, scenario_raw_event_a]
      = mset [scenario_raw_event_a, scenario_raw_event_c]"
    by simp
  have inj: "inj_on sort_columns
      (set (map with_order [scenario_raw_event_a, scenario_raw_event_c]))"
    by (simp add: scenario_raw_event_a_def scenario_raw_event_c_def with_order_def
        order_of_key_name_def sort_columns_def)
  have sorted: "get_events [scenario_raw_event_a, scenario_raw_event_c]
     = [with_order scenario_raw_event_c, with_order scenario_raw_event_a]"
    by (simp add: get_events_def scenario_raw_event_a_def scenario_raw_event_c_def with_order_def
        order_of_key_name_def sort_columns_def)
  show ?thesis
    using perm inj sorted
      get_events_sorted [where events = "[scenario_raw_event_a, scenario_raw_event_c]"
        and events' = "[scenario_raw_event_c, scenario_raw_event_a]"]
    by blast
qed

text \<open>
  Claim C1 as stated fails: two \<open>collateral_added\<close> rows of one transaction agree on the
  three columns, and the two orders of arrival give two different output sequences.
\<close>

theorem get_events_order_counterexample:
  "mset [scenario_raw_event_a, scenario_raw_event_b]
     = mset [scenario_raw_event_b, scenario_raw_event_a]
   \<and> get_events [scenario_raw_event_a, scenario_raw_event_b]
     \<noteq> get_events [scenario_raw_event_b, scenario_raw_event_a]"
  by (simp add: get_events_def scenario_raw_event_a_def scenario_raw_event_b_def with_order_def
      order_of_key_name_def sort_columns_def)

subsection \<open>The collateral invariant\<close>

lemma collateral_is_sum_recompute:
  assumes "recompute_collateral c l = Inr l'"
  shows "collateral_is_sum c l'"
  unfolding collateral_is_sum_def list_all_iff
proof
  fix token assume "token \<in> set (map fst (TOKEN_DECIMAL_FACTORS c))"
  then have "token \<in> fst ` set (TOKEN_DECIMAL_FACTORS c)" by simp
  from recompute_collateral_sum [OF assms this] recompute_fields(4,5) [OF assms]
  show "decimal_add (amount_of (original_collateral l') token)
      (amount_of (borrowed_collateral l') token) = Inr (amount_of (collateral l') token)"
    by simp
qed

lemma collateral_is_sum_debt [simp]:
  "collateral_is_sum c (l\<lparr>debt := d\<rparr>) = collateral_is_sum c l"
  "collateral_is_sum c (l\<lparr>debt_category := k\<rparr>) = collateral_is_sum c l"
  by (simp_all add: collateral_is_sum_def)

lemma integral_amounts_init: "integral_amounts TokenAmounts_init"
  by (simp add: integral_amounts_def TokenAmounts_init_def)

lemma integral_amounts_single:
  "of_int \<lfloor>a\<rfloor> = a \<Longrightarrow> integral_amounts (TokenAmounts_single t a)"
  by (simp add: integral_amounts_def TokenAmounts_single_def TokenAmounts_init_def)

lemma integral_amounts_decimal_at:
  "decimal_at ev i = Inr a \<Longrightarrow> integral_amounts (TokenAmounts_single t a)"
  by (rule integral_amounts_single) (rule decimal_at_integral)

lemma integral_amounts_layout:
  assumes "(case original_collateral_at c ev 14 17 of
          Inl KeyError \<Rightarrow> original_collateral_at c ev 13 16
        | other \<Rightarrow> other) = Inr (t, a)"
  shows "integral_amounts (TokenAmounts_single t a)"
  using layout_amount [OF assms] by (blast intro: integral_amounts_decimal_at)

lemma amount_of_integral:
  assumes "integral_amounts x"
  shows "of_int \<lfloor>amount_of x token\<rfloor> = amount_of x token"
proof (cases "map_of (token_amounts x) token")
  case None
  then show ?thesis by (simp add: amount_of_def)
next
  case (Some a)
  then have "(token, a) \<in> set (token_amounts x)" by (rule map_of_SomeD)
  with assms have "of_int \<lfloor>a\<rfloor> = a"
    by (auto simp add: integral_amounts_def list_all_iff)
  with Some show ?thesis by (simp add: amount_of_def)
qed

lemma store_invariant_set_loan:
  assumes "store_invariant c self" and "collateral_is_sum c l"
    and "integral_amounts (original_collateral l)"
    and "integral_amounts (borrowed_collateral l)"
  shows "store_invariant c (set_loan self k l)"
  using set_update_subset [of k l "loan_entities self"] assms
  by (auto simp add: store_invariant_def set_loan_def list_all_iff)

lemma store_invariant_get_loan:
  assumes "store_invariant c self" and "get_loan self k = Inr l"
  shows "integral_amounts (original_collateral l)"
    and "integral_amounts (borrowed_collateral l)"
proof -
  from assms(2) have "(k, l) \<in> set (loan_entities self)"
    by (auto simp add: get_loan_def split: option.splits dest: map_of_SomeD)
  with assms(1) show "integral_amounts (original_collateral l)"
    and "integral_amounts (borrowed_collateral l)"
    by (auto simp add: store_invariant_def list_all_iff)
qed

lemma store_invariant_recomputed:
  assumes "recompute_collateral c l = Inr l'"
    and "integral_amounts (original_collateral l)"
    and "integral_amounts (borrowed_collateral l)"
    and "store_invariant c self"
  shows "store_invariant c (set_loan self k l')"
    and "store_invariant c (set_loan self k (l'\<lparr>debt := d\<rparr>))"
    and "store_invariant c (set_loan self k (l'\<lparr>debt := d, debt_category := g\<rparr>))"
  using assms(2,3) recompute_fields(4,5) [OF assms(1)]
  by (simp_all add: store_invariant_set_loan [OF assms(4)]
      collateral_is_sum_recompute [OF assms(1)])

lemma preserved_new_loan:
  assumes "process_new_loan_event c self ev = Inr self'" and "store_invariant c self"
  shows "store_invariant c self'"
proof -
  from new_loan_reads [OF assms(1)]
  obtain loan_id u debt_token debt_amount borrowed_token borrowed_amount category t a where
    r: "int_at ev 0 = Inr loan_id" "data_at ev 1 = Inr u"
      "symbol_at c ev 2 = Inr debt_token" "decimal_at ev 4 = Inr debt_amount"
      "symbol_at c ev 6 = Inr borrowed_token" "decimal_at ev 7 = Inr borrowed_amount"
      "int_at ev 10 = Inr category"
    and layout: "(case original_collateral_at c ev 14 17 of
          Inl KeyError \<Rightarrow> original_collateral_at c ev 13 16
        | other \<Rightarrow> other) = Inr (t, a)"
    by blast
  from assms(1) obtain l where
    l: "recompute_collateral c
          (HashstackLoanEntity_init u category
             \<lparr>original_collateral := TokenAmounts_single t a,
              borrowed_collateral := TokenAmounts_single borrowed_token borrowed_amount\<rparr>)
        = Inr l"
    and self': "self' = set_loan self loan_id (l\<lparr>debt := TokenAmounts_single debt_token debt_amount\<rparr>)"
    by (auto simp add: new_loan_result [OF r] layout rbind_Inr_iff)
  show ?thesis
    unfolding self'
    by (rule store_invariant_recomputed(2) [OF l _ _ assms(2)])
      (simp_all add: integral_amounts_layout [OF layout] integral_amounts_decimal_at [OF r(6)])
qed

lemma preserved_rewrite:
  assumes "rewrite_original_collateral c self ev i = Inr self'" and "store_invariant c self"
  shows "store_invariant c self'"
proof -
  from assms(1) obtain loan_id t a l l' where
    a: "decimal_at ev 3 = Inr a" and stored: "get_loan self loan_id = Inr l"
    and l': "recompute_collateral c (l\<lparr>original_collateral := TokenAmounts_single t a\<rparr>) = Inr l'"
    and self': "self' = set_loan self loan_id l'"
    by (auto simp add: rewrite_original_collateral_def rbind_Inr_iff Let_def)
  show ?thesis
    unfolding self'
    by (rule store_invariant_recomputed(1) [OF l' _ _ assms(2)])
      (simp_all add: integral_amounts_decimal_at [OF a]
        store_invariant_get_loan [OF assms(2) stored])
qed

lemma preserved_loan_withdrawal:
  assumes "process_loan_withdrawal_event c self ev = Inr self'" and "store_invariant c self"
  shows "store_invariant c self'"
proof -
  from assms(1) obtain loan_id t a l l' d g where
    a: "decimal_at ev 7 = Inr a" and stored: "get_loan self loan_id = Inr l"
    and l': "recompute_collateral c (l\<lparr>borrowed_collateral := TokenAmounts_single t a\<rparr>) = Inr l'"
    and self': "self' = set_loan self loan_id (l'\<lparr>debt := d, debt_category := g\<rparr>)"
    by (auto simp add: process_loan_withdrawal_event_def rbind_Inr_iff Let_def)
  show ?thesis
    unfolding self'
    by (rule store_invariant_recomputed(3) [OF l' _ _ assms(2)])
      (simp_all add: integral_amounts_decimal_at [OF a]
        store_invariant_get_loan [OF assms(2) stored])
qed

lemma preserved_loan_repaid:
  assumes "process_loan_repaid_event c self ev = Inr self'" and "store_invariant c self"
  shows "store_invariant c self'"
proof -
  from assms(1) obtain loan_id t a l l' d g where
    a: "decimal_at ev 7 = Inr a" and stored: "get_loan self loan_id = Inr l"
    and l': "recompute_collateral c (l\<lparr>borrowed_collateral := TokenAmounts_single t a\<rparr>) = Inr l'"
    and self': "self' = set_loan self loan_id (l'\<lparr>debt := d, debt_category := g\<rparr>)"
    by (auto simp add: process_loan_repaid_event_def rbind_Inr_iff Let_def)
  show ?thesis
    unfolding self'
    by (rule store_invariant_recomputed(3) [OF l' _ _ assms(2)])
      (simp_all add: integral_amounts_decimal_at [OF a]
        store_invariant_get_loan [OF assms(2) stored])
qed

lemma preserved_loan_swap:
  assumes "process_loan_swap_event c self ev = Inr self'" and "store_invariant c self"
  shows "store_invariant c self'"
proof -
  from assms(1) obtain loan_id t a l l' d g where
    a: "decimal_at ev 21 = Inr a" and stored: "get_loan self loan_id = Inr l"
    and l': "recompute_collateral c (l\<lparr>borrowed_collateral := TokenAmounts_single t a\<rparr>) = Inr l'"
    and self': "self' = set_loan self loan_id (l'\<lparr>debt := d, debt_category := g\<rparr>)"
    by (auto simp add: process_loan_swap_event_def rbind_Inr_iff Let_def)
  show ?thesis
    unfolding self'
    by (rule store_invariant_recomputed(3) [OF l' _ _ assms(2)])
      (simp_all add: integral_amounts_decimal_at [OF a]
        store_invariant_get_loan [OF assms(2) stored])
qed

lemma preserved_liquidated:
  assumes "process_liquidated_event c self ev = Inr self'" and "store_invariant c self"
  shows "store_invariant c self'"
proof -
  from assms(1) obtain loan_id t a l l' d g where
    a: "decimal_at ev 7 = Inr a" and stored: "get_loan self loan_id = Inr l"
    and l': "recompute_collateral c
        (l\<lparr>borrowed_collateral := TokenAmounts_single t a,
           original_collateral := TokenAmounts_init\<rparr>) = Inr l'"
    and self': "self' = set_loan self loan_id (l'\<lparr>debt := d, debt_category := g\<rparr>)"
    by (auto simp add: process_liquidated_event_def rbind_Inr_iff Let_def)
  show ?thesis
    unfolding self'
    by (rule store_invariant_recomputed(3) [OF l' _ _ assms(2)])
      (simp_all add: integral_amounts_decimal_at [OF a] integral_amounts_init)
qed

lemma preserved_handler:
  assumes "(name, handler) \<in> set EVENTS_METHODS_MAPPING"
    and "handler c self ev = Inr self'" and "store_invariant c self"
  shows "store_invariant c self'"
  using assms
  by (auto simp add: EVENTS_METHODS_MAPPING_def process_collateral_added_event_def
      process_collateral_withdrawal_event_def process_loan_interest_deducted_event_def
      dest: preserved_new_loan preserved_rewrite preserved_loan_withdrawal
        preserved_loan_repaid preserved_loan_swap preserved_liquidated)

lemma reachable_invariant: "reachable c self \<Longrightarrow> store_invariant c self"
proof (induction rule: reachable.induct)
  case (initial vu)
  show ?case by (simp add: store_invariant_def HashstackState_init_def)
next
  case (handled self name handler ev self')
  then show ?case by (blast intro: preserved_handler)
qed

text \<open>
  The rounding of the sum is visible once the exact sum has more than 28 digits:
  \<open>10^28 + 1\<close> is stored as \<open>10^28\<close>.
\<close>

lemma decimal_add_rounds: "decimal_add (10 ^ 28) 1 = Inr (10 ^ 28)"
  using decimal_fix_eqI [of 28 "10 ^ 28 + 1" "10 ^ 27"]
  by (simp add: decimal_add_def pow10_def)

text \<open>
  Claim C2. In every state the handlers can produce from the empty store, every loan
  entity of the store has, at every token of the known universe (the keys of
  \<open>TOKEN_DECIMAL_FACTORS\<close>), a collateral amount equal to the sum of its original and
  borrowed collateral amounts, \<open>+\<close> being the addition of the decimal context that the
  expression of the specification evaluates: the sum rounded to 28 significant digits.
  The collateral amount is the exact sum whenever that sum is below \<open>10^28\<close> in absolute
  value. Each of the eight handlers keeps this (lemma \<open>preserved_handler\<close>).
\<close>

theorem collateral_is_sum_of_parts:
  assumes "reachable c self"
    and "(loan_id, loan_entity) \<in> set (loan_entities self)"
    and "token \<in> fst ` set (TOKEN_DECIMAL_FACTORS c)"
  shows "decimal_add (amount_of (original_collateral loan_entity) token)
           (amount_of (borrowed_collateral loan_entity) token)
         = Inr (amount_of (collateral loan_entity) token)
       \<and> (\<bar>amount_of (original_collateral loan_entity) token
            + amount_of (borrowed_collateral loan_entity) token\<bar> < 10 ^ 28
          \<longrightarrow> amount_of (collateral loan_entity) token
                = amount_of (original_collateral loan_entity) token
                  + amount_of (borrowed_collateral loan_entity) token)"
proof -
  from reachable_invariant [OF assms(1)] assms(2)
  have inv: "collateral_is_sum c loan_entity"
    and original: "integral_amounts (original_collateral loan_entity)"
    and borrowed: "integral_amounts (borrowed_collateral loan_entity)"
    by (auto simp add: store_invariant_def list_all_iff)
  from inv assms(3)
  have sum: "decimal_add (amount_of (original_collateral loan_entity) token)
           (amount_of (borrowed_collateral loan_entity) token)
         = Inr (amount_of (collateral loan_entity) token)"
    by (auto simp add: collateral_is_sum_def list_all_iff)
  have "amount_of (collateral loan_entity) token
                = amount_of (original_collateral loan_entity) token
                  + amount_of (borrowed_collateral loan_entity) token"
    if "\<bar>amount_of (original_collateral loan_entity) token
            + amount_of (borrowed_collateral loan_entity) token\<bar> < 10 ^ 28"
    using decimal_add_integral [OF amount_of_integral [OF original]
        amount_of_integral [OF borrowed] that] sum
    by simp
  with sum show ?thesis by blast
qed

theorem collateral_is_sum_of_parts_witness:
  "reachable scenario_constants \<lparr>loan_entities = [(7, scenario_loan_7)], verbose_user = None\<rparr>
   \<and> decimal_add (amount_of (original_collateral scenario_loan_7) ''B'')
       (amount_of (borrowed_collateral scenario_loan_7) ''B'')
     = Inr (amount_of (collateral scenario_loan_7) ''B'')
   \<and> amount_of (original_collateral scenario_loan_7) ''B'' = 50
   \<and> amount_of (borrowed_collateral scenario_loan_7) ''B'' = 20
   \<and> amount_of (collateral scenario_loan_7) ''B'' = 70"
proof -
  have handler: "(''new_loan'', process_new_loan_event) \<in> set EVENTS_METHODS_MAPPING"
    by (simp add: EVENTS_METHODS_MAPPING_def)
  have r: "reachable scenario_constants
      \<lparr>loan_entities = [(7, scenario_loan_7)], verbose_user = None\<rparr>"
    by (rule reachable.handled [OF reachable.initial handler scenario_new_loan])
  have stored: "(7, scenario_loan_7)
      \<in> set (loan_entities \<lparr>loan_entities = [(7, scenario_loan_7)], verbose_user = None\<rparr>)"
    by simp
  have token: "''B'' \<in> fst ` set (TOKEN_DECIMAL_FACTORS scenario_constants)"
    by (simp add: scenario_constants_def)
  have amounts: "amount_of (original_collateral scenario_loan_7) ''B'' = 50"
    "amount_of (borrowed_collateral scenario_loan_7) ''B'' = 20"
    by (simp_all add: amount_of_def scenario_loan_7_def)
  note sum = collateral_is_sum_of_parts [OF r stored token]
  from sum have "amount_of (collateral scenario_loan_7) ''B'' = 70"
    unfolding amounts by simp
  with r sum amounts show ?thesis by simp
qed

subsection \<open>Liquidation\<close>

text \<open>
  Claim C6. For a \<open>liquidated\<close> event whose fields decode, whose loan id is in the store,
  whose user is the stored user and whose borrowed-collateral amount is zero, the handler
  returns a state in which the loan has debt zero and borrowed collateral zero at every
  token, an emptied original collateral, collateral zero at every token, and the
  category of the event. In the scenario, loan 7 has 70 units of \<open>B\<close> as collateral
  before the event and none after it.
\<close>

theorem liquidated_clears_loan:
  assumes "int_at ev 0 = Inr loan_id"
    and "data_at ev 1 = Inr u"
    and "get_loan self loan_id = Inr loan_entity"
    and "user loan_entity = u"
    and "symbol_at c ev 2 = Inr debt_token"
    and "symbol_at c ev 6 = Inr borrowed_collateral_token"
    and "decimal_at ev 7 = Inr 0"
    and "int_at ev 10 = Inr category"
  shows "\<exists>self' loan_entity'.
           process_liquidated_event c self ev = Inr self'
         \<and> get_loan self' loan_id = Inr loan_entity'
         \<and> (\<forall>token. amount_of (debt loan_entity') token = 0)
         \<and> (\<forall>token. amount_of (borrowed_collateral loan_entity') token = 0)
         \<and> original_collateral loan_entity' = TokenAmounts_init
         \<and> (\<forall>token. amount_of (original_collateral loan_entity') token = 0)
         \<and> (\<forall>token. amount_of (collateral loan_entity') token = 0)
         \<and> debt_category loan_entity' = category
         \<and> user loan_entity' = user loan_entity"
proof -
  define cleared where
    "cleared = loan_entity
       \<lparr>borrowed_collateral := TokenAmounts_single borrowed_collateral_token 0,
        original_collateral := TokenAmounts_init\<rparr>"
  have "\<exists>l'. recompute_collateral c cleared = Inr l'
      \<and> (\<forall>token. amount_of (collateral l') token = 0)"
    by (rule recompute_collateral_zero)
      (simp_all add: cleared_def amount_of_single amount_of_init)
  then obtain recomputed where
    recomputed: "recompute_collateral c cleared = Inr recomputed"
    and zero: "\<forall>token. amount_of (collateral recomputed) token = 0"
    by blast
  note fields = recompute_fields [OF recomputed]
  have "process_liquidated_event c self ev
      = Inr (set_loan self loan_id
          (recomputed\<lparr>debt := TokenAmounts_single debt_token 0, debt_category := category\<rparr>))"
    using assms recomputed
    by (simp add: process_liquidated_event_def rbind_Inr py_assert_def Let_def cleared_def)
  then show ?thesis
    using zero fields
    by (simp add: get_loan_set_loan amount_of_single amount_of_init cleared_def)
qed

theorem liquidated_clears_loan_witness:
  "amount_of (collateral scenario_loan_7) ''B'' = 70
   \<and> (\<exists>self' loan_entity'.
           process_liquidated_event scenario_constants scenario_state scenario_liquidated_event
             = Inr self'
         \<and> get_loan self' 7 = Inr loan_entity'
         \<and> (\<forall>token. amount_of (debt loan_entity') token = 0)
         \<and> (\<forall>token. amount_of (borrowed_collateral loan_entity') token = 0)
         \<and> original_collateral loan_entity' = TokenAmounts_init
         \<and> (\<forall>token. amount_of (original_collateral loan_entity') token = 0)
         \<and> (\<forall>token. amount_of (collateral loan_entity') token = 0)
         \<and> debt_category loan_entity' = 2
         \<and> user loan_entity' = user scenario_loan_7)"
proof -
  have before: "amount_of (collateral scenario_loan_7) ''B'' = 70"
    by (simp add: amount_of_def scenario_loan_7_def)
  have fields:
    "int_at scenario_liquidated_event 0 = Inr 7"
    "data_at scenario_liquidated_event 1 = Inr ''0x51''"
    "symbol_at scenario_constants scenario_liquidated_event 2 = Inr ''A''"
    "symbol_at scenario_constants scenario_liquidated_event 6 = Inr ''B''"
    "decimal_at scenario_liquidated_event 7 = Inr 0"
    "int_at scenario_liquidated_event 10 = Inr 2"
    by (simp_all add: scenario_liquidated_event_def scenario_constants_def decode_defs)
  have stored: "get_loan scenario_state 7 = Inr scenario_loan_7"
    "user scenario_loan_7 = ''0x51''"
    by (simp_all add: get_loan_def scenario_state_def scenario_loan_7_def)
  show ?thesis
    using before
      liquidated_clears_loan [OF fields(1) fields(2) stored(1) stored(2) fields(3) fields(4)
        fields(5) fields(6)]
    by simp
qed

subsection \<open>Preconditions of the handlers\<close>

lemma new_loan_store_independent:
  "process_new_loan_event c self ev = Inl e \<Longrightarrow> process_new_loan_event c other ev = Inl e"
  by (auto simp add: process_new_loan_event_def rbind_def Let_def split: sum.splits prod.splits)

lemma new_loan_replaces:
  assumes "process_new_loan_event c self ev = Inr self'" and "int_at ev 0 = Inr loan_id"
  shows "\<exists>loan_entity'. get_loan self' loan_id = Inr loan_entity'
           \<and> self' = set_loan self loan_id loan_entity'
           \<and> process_new_loan_event c other ev = Inr (set_loan other loan_id loan_entity')"
proof -
  from new_loan_reads [OF assms(1)] assms(2)
  obtain u debt_token debt_amount borrowed_token borrowed_amount category t a where
    r: "int_at ev 0 = Inr loan_id" "data_at ev 1 = Inr u"
      "symbol_at c ev 2 = Inr debt_token" "decimal_at ev 4 = Inr debt_amount"
      "symbol_at c ev 6 = Inr borrowed_token" "decimal_at ev 7 = Inr borrowed_amount"
      "int_at ev 10 = Inr category"
    and layout: "(case original_collateral_at c ev 14 17 of
          Inl KeyError \<Rightarrow> original_collateral_at c ev 13 16
        | other \<Rightarrow> other) = Inr (t, a)"
    by auto
  from assms(1) obtain l where
    l: "recompute_collateral c
          (HashstackLoanEntity_init u category
             \<lparr>original_collateral := TokenAmounts_single t a,
              borrowed_collateral := TokenAmounts_single borrowed_token borrowed_amount\<rparr>)
        = Inr l"
    and self': "self' = set_loan self loan_id
        (l\<lparr>debt := TokenAmounts_single debt_token debt_amount\<rparr>)"
    by (auto simp add: new_loan_result [OF r] layout rbind_Inr_iff)
  show ?thesis
    by (simp add: new_loan_result [OF r] layout rbind_Inr l self' get_loan_set_loan)
qed

lemma user_mismatch:
  assumes "int_at ev 0 = Inr loan_id" and "data_at ev 1 = Inr u"
    and "get_loan self loan_id = Inr loan_entity" and "user loan_entity \<noteq> u"
  shows "process_loan_withdrawal_event c self ev = Inl AssertionError"
    and "process_loan_repaid_event c self ev = Inl AssertionError"
    and "process_loan_swap_event c self ev = Inl AssertionError"
    and "process_liquidated_event c self ev = Inl AssertionError"
  using assms
  by (simp_all add: process_loan_withdrawal_event_def process_loan_repaid_event_def
      process_loan_swap_event_def process_liquidated_event_def rbind_Inr py_assert_def
      rbind_Inl)

lemma nonzero_borrowed_collateral:
  assumes "int_at ev 0 = Inr loan_id" and "data_at ev 1 = Inr (user loan_entity)"
    and "get_loan self loan_id = Inr loan_entity"
    and "symbol_at c ev 2 = Inr debt_token" and "symbol_at c ev 6 = Inr borrowed_token"
    and "decimal_at ev 7 = Inr amount" and "amount \<noteq> 0"
  shows "process_loan_repaid_event c self ev = Inl AssertionError"
    and "process_liquidated_event c self ev = Inl AssertionError"
  using assms
  by (simp_all add: process_loan_repaid_event_def process_liquidated_event_def rbind_Inr
      py_assert_def rbind_Inl Let_def)

text \<open>
  Claim C7, as amended. The loan-creation handler has no precondition on the store:
  whether it fails depends on the event alone, and on success it stores the new entity
  under the loan id whether or not the id was there, replacing a stored entity. The
  preconditions of the other handlers are hard failures: a handler that returns has
  found the loan id in the store, has found the event's user equal to the stored user
  (loan withdrawal, repayment, swap, liquidation), a zero borrowed-collateral amount
  (repayment, liquidation), and equal ids, users and debt (swap); a different user or a
  nonzero amount raises \<open>AssertionError\<close>.
\<close>

theorem handler_preconditions:
  "(process_new_loan_event c self ev = Inr self' \<and> int_at ev 0 = Inr loan_id
      \<longrightarrow> (\<exists>loan_entity'. get_loan self' loan_id = Inr loan_entity'
             \<and> self' = set_loan self loan_id loan_entity'
             \<and> process_new_loan_event c other ev = Inr (set_loan other loan_id loan_entity')))
   \<and> (process_new_loan_event c self ev = Inl e \<longrightarrow> process_new_loan_event c other ev = Inl e)
   \<and> (process_collateral_added_event c self ev = Inr self'
      \<longrightarrow> (\<exists>i l. int_at ev 9 = Inr i \<and> get_loan self i = Inr l))
   \<and> (process_collateral_withdrawal_event c self ev = Inr self'
      \<longrightarrow> (\<exists>i l. int_at ev 9 = Inr i \<and> get_loan self i = Inr l))
   \<and> (process_loan_interest_deducted_event c self ev = Inr self'
      \<longrightarrow> (\<exists>i l. int_at ev 11 = Inr i \<and> get_loan self i = Inr l))
   \<and> (process_loan_withdrawal_event c self ev = Inr self'
      \<longrightarrow> (\<exists>i l. int_at ev 0 = Inr i \<and> get_loan self i = Inr l \<and> data_at ev 1 = Inr (user l)))
   \<and> (process_loan_repaid_event c self ev = Inr self'
      \<longrightarrow> (\<exists>i l. int_at ev 0 = Inr i \<and> get_loan self i = Inr l \<and> data_at ev 1 = Inr (user l)
             \<and> decimal_at ev 7 = Inr 0))
   \<and> (process_liquidated_event c self ev = Inr self'
      \<longrightarrow> (\<exists>i l. int_at ev 0 = Inr i \<and> get_loan self i = Inr l \<and> data_at ev 1 = Inr (user l)
             \<and> decimal_at ev 7 = Inr 0))
   \<and> (process_loan_swap_event c self ev = Inr self'
      \<longrightarrow> (\<exists>i l t a. int_at ev 0 = Inr i \<and> get_loan self i = Inr l
             \<and> data_at ev 1 = Inr (user l) \<and> int_at ev 14 = Inr i
             \<and> data_at ev 15 = Inr (user l)
             \<and> symbol_at c ev 16 = Inr t \<and> decimal_at ev 18 = Inr a
             \<and> set (token_amounts (debt l)) = set (token_amounts (TokenAmounts_single t a))))
   \<and> (int_at ev 0 = Inr loan_id \<and> data_at ev 1 = Inr u
        \<and> get_loan self loan_id = Inr loan_entity \<and> user loan_entity \<noteq> u
      \<longrightarrow> process_loan_withdrawal_event c self ev = Inl AssertionError
        \<and> process_loan_repaid_event c self ev = Inl AssertionError
        \<and> process_loan_swap_event c self ev = Inl AssertionError
        \<and> process_liquidated_event c self ev = Inl AssertionError)
   \<and> (int_at ev 0 = Inr loan_id \<and> data_at ev 1 = Inr (user loan_entity)
        \<and> get_loan self loan_id = Inr loan_entity
        \<and> symbol_at c ev 2 = Inr debt_token \<and> symbol_at c ev 6 = Inr borrowed_token
        \<and> decimal_at ev 7 = Inr amount \<and> amount \<noteq> 0
      \<longrightarrow> process_loan_repaid_event c self ev = Inl AssertionError
        \<and> process_liquidated_event c self ev = Inl AssertionError)"
proof (intro conjI impI)
  assume "process_new_loan_event c self ev = Inr self' \<and> int_at ev 0 = Inr loan_id"
  then show "\<exists>loan_entity'. get_loan self' loan_id = Inr loan_entity'
             \<and> self' = set_loan self loan_id loan_entity'
             \<and> process_new_loan_event c other ev = Inr (set_loan other loan_id loan_entity')"
    by (blast intro: new_loan_replaces)
next
  assume "process_new_loan_event c self ev = Inl e"
  then show "process_new_loan_event c other ev = Inl e"
    by (rule new_loan_store_independent)
next
  assume "process_collateral_added_event c self ev = Inr self'"
  then show "\<exists>i l. int_at ev 9 = Inr i \<and> get_loan self i = Inr l"
    unfolding process_collateral_added_event_def by (blast dest: rewrite_reads)
next
  assume "process_collateral_withdrawal_event c self ev = Inr self'"
  then show "\<exists>i l. int_at ev 9 = Inr i \<and> get_loan self i = Inr l"
    unfolding process_collateral_withdrawal_event_def by (blast dest: rewrite_reads)
next
  assume "process_loan_interest_deducted_event c self ev = Inr self'"
  then show "\<exists>i l. int_at ev 11 = Inr i \<and> get_loan self i = Inr l"
    unfolding process_loan_interest_deducted_event_def by (blast dest: rewrite_reads)
next
  assume "process_loan_withdrawal_event c self ev = Inr self'"
  then show "\<exists>i l. int_at ev 0 = Inr i \<and> get_loan self i = Inr l \<and> data_at ev 1 = Inr (user l)"
    by (blast dest: loan_withdrawal_reads)
next
  assume "process_loan_repaid_event c self ev = Inr self'"
  then show "\<exists>i l. int_at ev 0 = Inr i \<and> get_loan self i = Inr l \<and> data_at ev 1 = Inr (user l)
             \<and> decimal_at ev 7 = Inr 0"
    by (blast dest: loan_repaid_reads)
next
  assume "process_liquidated_event c self ev = Inr self'"
  then show "\<exists>i l. int_at ev 0 = Inr i \<and> get_loan self i = Inr l \<and> data_at ev 1 = Inr (user l)
             \<and> decimal_at ev 7 = Inr 0"
    by (blast dest: liquidated_reads)
next
  assume "process_loan_swap_event c self ev = Inr self'"
  then show "\<exists>i l t a. int_at ev 0 = Inr i \<and> get_loan self i = Inr l
             \<and> data_at ev 1 = Inr (user l) \<and> int_at ev 14 = Inr i
             \<and> data_at ev 15 = Inr (user l)
             \<and> symbol_at c ev 16 = Inr t \<and> decimal_at ev 18 = Inr a
             \<and> set (token_amounts (debt l)) = set (token_amounts (TokenAmounts_single t a))"
    by (blast dest: loan_swap_reads)
next
  assume a: "int_at ev 0 = Inr loan_id \<and> data_at ev 1 = Inr u
        \<and> get_loan self loan_id = Inr loan_entity \<and> user loan_entity \<noteq> u"
  then show "process_loan_withdrawal_event c self ev = Inl AssertionError"
    "process_loan_repaid_event c self ev = Inl AssertionError"
    "process_loan_swap_event c self ev = Inl AssertionError"
    "process_liquidated_event c self ev = Inl AssertionError"
    by (blast intro: user_mismatch)+
next
  assume a: "int_at ev 0 = Inr loan_id \<and> data_at ev 1 = Inr (user loan_entity)
        \<and> get_loan self loan_id = Inr loan_entity
        \<and> symbol_at c ev 2 = Inr debt_token \<and> symbol_at c ev 6 = Inr borrowed_token
        \<and> decimal_at ev 7 = Inr amount \<and> amount \<noteq> 0"
  then show "process_loan_repaid_event c self ev = Inl AssertionError"
    "process_liquidated_event c self ev = Inl AssertionError"
    by (blast intro: nonzero_borrowed_collateral)+
qed

theorem handler_preconditions_witness:
  "process_new_loan_event scenario_constants (HashstackState_init None)
       scenario_second_new_loan_event
     = Inr (set_loan (HashstackState_init None) 7 scenario_replacing_loan)
   \<and> process_loan_withdrawal_event scenario_constants scenario_state
       scenario_second_new_loan_event = Inl AssertionError
   \<and> process_loan_repaid_event scenario_constants scenario_state
       scenario_second_new_loan_event = Inl AssertionError
   \<and> process_loan_swap_event scenario_constants scenario_state
       scenario_second_new_loan_event = Inl AssertionError
   \<and> process_liquidated_event scenario_constants scenario_state
       scenario_second_new_loan_event = Inl AssertionError
   \<and> process_loan_repaid_event scenario_constants scenario_state
       scenario_new_loan_event = Inl AssertionError
   \<and> process_liquidated_event scenario_constants scenario_state
       scenario_new_loan_event = Inl AssertionError"
proof -
  have second: "int_at scenario_second_new_loan_event 0 = Inr 7"
    "data_at scenario_second_new_loan_event 1 = Inr ''0x52''"
    by (simp_all add: scenario_second_new_loan_event_def decode_defs)
  have replaced: "get_loan \<lparr>loan_entities =
              [(7, scenario_replacing_loan), (8, scenario_loan_8), (9, scenario_loan_9)],
            verbose_user = None\<rparr> 7 = Inr scenario_replacing_loan"
    by (simp add: get_loan_def)
  have other_user: "user scenario_loan_7 \<noteq> ''0x52''"
    by (simp add: scenario_loan_7_def)
  have first: "int_at scenario_new_loan_event 0 = Inr 7"
    "data_at scenario_new_loan_event 1 = Inr (user scenario_loan_7)"
    "symbol_at scenario_constants scenario_new_loan_event 2 = Inr ''A''"
    "symbol_at scenario_constants scenario_new_loan_event 6 = Inr ''B''"
    "decimal_at scenario_new_loan_event 7 = Inr 20"
    by (simp_all add: scenario_new_loan_event_def scenario_constants_def scenario_loan_7_def
        decode_defs)
  show ?thesis
    using scenario_second_new_loan second replaced other_user scenario_stored_7 first
      handler_preconditions [where c = scenario_constants and self = scenario_state
        and ev = scenario_second_new_loan_event and loan_id = 7 and u = "''0x52''"
        and loan_entity = scenario_loan_7 and other = "HashstackState_init None"
        and self' = "\<lparr>loan_entities =
              [(7, scenario_replacing_loan), (8, scenario_loan_8), (9, scenario_loan_9)],
            verbose_user = None\<rparr>"]
      handler_preconditions [where c = scenario_constants and self = scenario_state
        and ev = scenario_new_loan_event and loan_id = 7
        and loan_entity = scenario_loan_7 and debt_token = "''A''"
        and borrowed_token = "''B''" and amount = 20]
    by auto
qed

text \<open>
  Claim C7 as stated fails: a \<open>new_loan\<close> event for loan 7, which the store holds, returns
  normally and the stored entity is replaced.
\<close>

theorem new_loan_replaces_counterexample:
  "get_loan scenario_state 7 = Inr scenario_loan_7
   \<and> process_new_loan_event scenario_constants scenario_state scenario_second_new_loan_event
     = Inr \<lparr>loan_entities =
              [(7, scenario_replacing_loan), (8, scenario_loan_8), (9, scenario_loan_9)],
            verbose_user = None\<rparr>"
  by (simp add: process_new_loan_event_def original_collateral_at_def
      scenario_second_new_loan_event_def scenario_replacing_loan_def scenario_state_def
      scenario_constants_def decode_defs state_defs)

subsection \<open>The two layouts of the loan-creation event\<close>

lemma new_loan_fallback:
  assumes r: "int_at ev 0 = Inr loan_id" "data_at ev 1 = Inr u"
      "symbol_at c ev 2 = Inr debt_token" "decimal_at ev 4 = Inr debt_amount"
      "symbol_at c ev 6 = Inr borrowed_token" "decimal_at ev 7 = Inr borrowed_amount"
      "int_at ev 10 = Inr category"
    and miss: "symbol_at c ev 14 = Inl KeyError"
  shows "original_collateral_at c ev 13 16 = Inl e \<Longrightarrow> process_new_loan_event c self ev = Inl e"
    and "original_collateral_at c ev 13 16 = Inr (t, a) \<Longrightarrow>
      \<exists>self' l. process_new_loan_event c self ev = Inr self' \<and> get_loan self' loan_id = Inr l
        \<and> original_collateral l = TokenAmounts_single t a"
proof -
  note layout = original_collateral_at_KeyError [OF miss]
  show "process_new_loan_event c self ev = Inl e"
    if "original_collateral_at c ev 13 16 = Inl e"
    using that by (simp add: new_loan_result [OF r] layout rbind_def)
  show "\<exists>self' l. process_new_loan_event c self ev = Inr self' \<and> get_loan self' loan_id = Inr l
        \<and> original_collateral l = TokenAmounts_single t a"
    if alternate: "original_collateral_at c ev 13 16 = Inr (t, a)"
  proof -
    from alternate have "decimal_at ev 16 = Inr a"
      by (simp add: original_collateral_at_Inr)
    from new_loan_recomputes [OF this r(6)] obtain l where
      l: "recompute_collateral c
          (HashstackLoanEntity_init u category
             \<lparr>original_collateral := TokenAmounts_single t a,
              borrowed_collateral := TokenAmounts_single borrowed_token borrowed_amount\<rparr>)
        = Inr l"
      by blast
    from recompute_fields(4) [OF l] show ?thesis
      by (simp add: new_loan_result [OF r] layout alternate rbind_Inr l get_loan_set_loan)
  qed
qed

lemma new_loan_no_fallback:
  assumes "symbol_at c ev 14 \<noteq> Inl KeyError" and "length (data ev) \<le> 17"
  shows "isl (process_new_loan_event c self ev)"
proof (rule isl_unless)
  fix x assume "process_new_loan_event c self ev = Inr x"
  from new_loan_reads [OF this] obtain t a where
    layout: "(case original_collateral_at c ev 14 17 of
          Inl KeyError \<Rightarrow> original_collateral_at c ev 13 16
        | other \<Rightarrow> other) = Inr (t, a)"
    by blast
  from original_collateral_at_not_KeyError [OF assms(1), of 17] assms(2)
  have "isl (original_collateral_at c ev 14 17)"
    and "original_collateral_at c ev 14 17 \<noteq> Inl KeyError"
    by simp_all
  with layout show False
    by (auto split: sum.splits error.splits)
qed

lemma short_data:
  "length (data ev) \<le> 9 \<Longrightarrow> isl (process_collateral_added_event c self ev)"
  "length (data ev) \<le> 9 \<Longrightarrow> isl (process_collateral_withdrawal_event c self ev)"
  "length (data ev) \<le> 11 \<Longrightarrow> isl (process_loan_interest_deducted_event c self ev)"
  "length (data ev) \<le> 10 \<Longrightarrow> isl (process_new_loan_event c self ev)"
  "length (data ev) \<le> 10 \<Longrightarrow> isl (process_loan_withdrawal_event c self ev)"
  "length (data ev) \<le> 10 \<Longrightarrow> isl (process_loan_repaid_event c self ev)"
  "length (data ev) \<le> 10 \<Longrightarrow> isl (process_liquidated_event c self ev)"
  "length (data ev) \<le> 24 \<Longrightarrow> isl (process_loan_swap_event c self ev)"
  unfolding process_collateral_added_event_def process_collateral_withdrawal_event_def
    process_loan_interest_deducted_event_def
  by (rule isl_unless,
      fastforce dest: rewrite_reads new_loan_reads loan_withdrawal_reads loan_repaid_reads
        liquidated_reads loan_swap_reads int_at_length)+

lemma unknown_token:
  "symbol_at c ev 2 = Inl KeyError \<or> symbol_at c ev 6 = Inl KeyError \<Longrightarrow>
     isl (process_new_loan_event c self ev)"
  "symbol_at c ev 2 = Inl KeyError \<or> symbol_at c ev 6 = Inl KeyError \<Longrightarrow>
     isl (process_loan_withdrawal_event c self ev)"
  "symbol_at c ev 2 = Inl KeyError \<or> symbol_at c ev 6 = Inl KeyError \<Longrightarrow>
     isl (process_loan_repaid_event c self ev)"
  "symbol_at c ev 2 = Inl KeyError \<or> symbol_at c ev 6 = Inl KeyError \<Longrightarrow>
     isl (process_liquidated_event c self ev)"
  "symbol_at c ev 0 = Inl KeyError \<Longrightarrow> isl (process_collateral_added_event c self ev)"
  "symbol_at c ev 0 = Inl KeyError \<Longrightarrow> isl (process_collateral_withdrawal_event c self ev)"
  "symbol_at c ev 0 = Inl KeyError \<Longrightarrow> isl (process_loan_interest_deducted_event c self ev)"
  "symbol_at c ev 16 = Inl KeyError \<or> symbol_at c ev 20 = Inl KeyError \<Longrightarrow>
     isl (process_loan_swap_event c self ev)"
  unfolding process_collateral_added_event_def process_collateral_withdrawal_event_def
    process_loan_interest_deducted_event_def
  by (rule isl_unless,
      fastforce dest: rewrite_reads new_loan_reads loan_withdrawal_reads loan_repaid_reads
        liquidated_reads loan_swap_reads)+

text \<open>
  Claim C8, as amended. For the loan-creation event only, when the token lookup at
  index 14 misses (\<open>KeyError\<close>), decoding reads the alternate layout (token at index 13,
  amount at index 16) and the handler fails only if that fails. A field absent from the
  array is not recovered, in the loan-creation handler as in every other: the handler
  raises. An unknown token address at any other token position raises in every
  handler.
\<close>

theorem new_loan_layout_fallback:
  "(int_at ev 0 = Inr loan_id \<and> data_at ev 1 = Inr u
      \<and> symbol_at c ev 2 = Inr debt_token \<and> decimal_at ev 4 = Inr debt_amount
      \<and> symbol_at c ev 6 = Inr borrowed_token \<and> decimal_at ev 7 = Inr borrowed_amount
      \<and> int_at ev 10 = Inr category \<and> symbol_at c ev 14 = Inl KeyError
    \<longrightarrow> (original_collateral_at c ev 13 16 = Inl e
          \<longrightarrow> process_new_loan_event c self ev = Inl e)
       \<and> (original_collateral_at c ev 13 16 = Inr (t, a)
          \<longrightarrow> (\<exists>self' l. process_new_loan_event c self ev = Inr self'
                 \<and> get_loan self' loan_id = Inr l
                 \<and> original_collateral l = TokenAmounts_single t a)))
   \<and> (symbol_at c ev 14 \<noteq> Inl KeyError \<and> length (data ev) \<le> 17
      \<longrightarrow> isl (process_new_loan_event c self ev))
   \<and> (length (data ev) \<le> 9
      \<longrightarrow> isl (process_collateral_added_event c self ev)
        \<and> isl (process_collateral_withdrawal_event c self ev))
   \<and> (length (data ev) \<le> 11 \<longrightarrow> isl (process_loan_interest_deducted_event c self ev))
   \<and> (length (data ev) \<le> 10
      \<longrightarrow> isl (process_new_loan_event c self ev)
        \<and> isl (process_loan_withdrawal_event c self ev)
        \<and> isl (process_loan_repaid_event c self ev)
        \<and> isl (process_liquidated_event c self ev))
   \<and> (length (data ev) \<le> 24 \<longrightarrow> isl (process_loan_swap_event c self ev))
   \<and> (symbol_at c ev 2 = Inl KeyError \<or> symbol_at c ev 6 = Inl KeyError
      \<longrightarrow> isl (process_new_loan_event c self ev)
        \<and> isl (process_loan_withdrawal_event c self ev)
        \<and> isl (process_loan_repaid_event c self ev)
        \<and> isl (process_liquidated_event c self ev))
   \<and> (symbol_at c ev 0 = Inl KeyError
      \<longrightarrow> isl (process_collateral_added_event c self ev)
        \<and> isl (process_collateral_withdrawal_event c self ev)
        \<and> isl (process_loan_interest_deducted_event c self ev))
   \<and> (symbol_at c ev 16 = Inl KeyError \<or> symbol_at c ev 20 = Inl KeyError
      \<longrightarrow> isl (process_loan_swap_event c self ev))"
proof -
  have fallback: "(original_collateral_at c ev 13 16 = Inl e
          \<longrightarrow> process_new_loan_event c self ev = Inl e)
       \<and> (original_collateral_at c ev 13 16 = Inr (t, a)
          \<longrightarrow> (\<exists>self' l. process_new_loan_event c self ev = Inr self'
                 \<and> get_loan self' loan_id = Inr l
                 \<and> original_collateral l = TokenAmounts_single t a))"
    if "int_at ev 0 = Inr loan_id" "data_at ev 1 = Inr u"
      "symbol_at c ev 2 = Inr debt_token" "decimal_at ev 4 = Inr debt_amount"
      "symbol_at c ev 6 = Inr borrowed_token" "decimal_at ev 7 = Inr borrowed_amount"
      "int_at ev 10 = Inr category" "symbol_at c ev 14 = Inl KeyError"
    using new_loan_fallback [OF that] by blast
  show ?thesis
  proof (intro conjI impI)
    assume "int_at ev 0 = Inr loan_id \<and> data_at ev 1 = Inr u
      \<and> symbol_at c ev 2 = Inr debt_token \<and> decimal_at ev 4 = Inr debt_amount
      \<and> symbol_at c ev 6 = Inr borrowed_token \<and> decimal_at ev 7 = Inr borrowed_amount
      \<and> int_at ev 10 = Inr category \<and> symbol_at c ev 14 = Inl KeyError"
    then have f: "(original_collateral_at c ev 13 16 = Inl e
          \<longrightarrow> process_new_loan_event c self ev = Inl e)
       \<and> (original_collateral_at c ev 13 16 = Inr (t, a)
          \<longrightarrow> (\<exists>self' l. process_new_loan_event c self ev = Inr self'
                 \<and> get_loan self' loan_id = Inr l
                 \<and> original_collateral l = TokenAmounts_single t a))"
      by (intro fallback) simp_all
    {
      assume "original_collateral_at c ev 13 16 = Inl e"
      with f show "process_new_loan_event c self ev = Inl e" by simp
    }
    {
      assume "original_collateral_at c ev 13 16 = Inr (t, a)"
      with f show "\<exists>self' l. process_new_loan_event c self ev = Inr self'
                 \<and> get_loan self' loan_id = Inr l
                 \<and> original_collateral l = TokenAmounts_single t a" by simp
    }
  next
    assume "symbol_at c ev 14 \<noteq> Inl KeyError \<and> length (data ev) \<le> 17"
    then show "isl (process_new_loan_event c self ev)"
      by (intro new_loan_no_fallback) simp_all
  qed (simp_all add: short_data unknown_token)
qed

theorem new_loan_layout_fallback_witness:
  "process_new_loan_event scenario_constants (HashstackState_init None)
       scenario_alternate_new_loan_event \<noteq> Inl KeyError
   \<and> (\<exists>self' l. process_new_loan_event scenario_constants (HashstackState_init None)
          scenario_alternate_new_loan_event = Inr self'
        \<and> get_loan self' 7 = Inr l
        \<and> original_collateral l = TokenAmounts_single ''B'' 50)
   \<and> isl (process_new_loan_event scenario_constants (HashstackState_init None)
          scenario_truncated_new_loan_event)
   \<and> isl (process_loan_swap_event scenario_constants scenario_state
          scenario_truncated_new_loan_event)"
proof -
  have fields:
    "int_at scenario_alternate_new_loan_event 0 = Inr 7
     \<and> data_at scenario_alternate_new_loan_event 1 = Inr ''0x51''
     \<and> symbol_at scenario_constants scenario_alternate_new_loan_event 2 = Inr ''A''
     \<and> decimal_at scenario_alternate_new_loan_event 4 = Inr 100
     \<and> symbol_at scenario_constants scenario_alternate_new_loan_event 6 = Inr ''B''
     \<and> decimal_at scenario_alternate_new_loan_event 7 = Inr 20
     \<and> int_at scenario_alternate_new_loan_event 10 = Inr 3
     \<and> symbol_at scenario_constants scenario_alternate_new_loan_event 14 = Inl KeyError"
    by (simp add: scenario_alternate_new_loan_event_def scenario_constants_def decode_defs)
  have alternate:
    "original_collateral_at scenario_constants scenario_alternate_new_loan_event 13 16
       = Inr (''B'', 50)"
    by (simp add: scenario_alternate_new_loan_event_def scenario_constants_def
        original_collateral_at_def decode_defs)
  have truncated:
    "symbol_at scenario_constants scenario_truncated_new_loan_event 14 \<noteq> Inl KeyError
     \<and> length (data scenario_truncated_new_loan_event) \<le> 17"
    by (simp add: scenario_truncated_new_loan_event_def scenario_constants_def decode_defs)
  have short: "length (data scenario_truncated_new_loan_event) \<le> 24"
    by (simp add: scenario_truncated_new_loan_event_def)
  note recovered =
    new_loan_layout_fallback [where c = scenario_constants
      and self = "HashstackState_init None" and ev = scenario_alternate_new_loan_event
      and loan_id = 7 and u = "''0x51''" and debt_token = "''A''" and debt_amount = 100
      and borrowed_token = "''B''" and borrowed_amount = 20 and category = 3
      and e = KeyError and t = "''B''" and a = 50, THEN conjunct1, rule_format, OF fields]
  note not_recovered =
    new_loan_layout_fallback [where c = scenario_constants
      and self = "HashstackState_init None" and ev = scenario_truncated_new_loan_event,
      THEN conjunct2, THEN conjunct1, rule_format, OF truncated]
  note swap =
    new_loan_layout_fallback [where c = scenario_constants
      and self = scenario_state and ev = scenario_truncated_new_loan_event,
      THEN conjunct2, THEN conjunct2, THEN conjunct2, THEN conjunct2, THEN conjunct2,
      THEN conjunct1, rule_format, OF short]
  from recovered alternate
  have found: "\<exists>self' l. process_new_loan_event scenario_constants (HashstackState_init None)
          scenario_alternate_new_loan_event = Inr self'
        \<and> get_loan self' 7 = Inr l
        \<and> original_collateral l = TokenAmounts_single ''B'' 50"
    by blast
  then have "process_new_loan_event scenario_constants (HashstackState_init None)
       scenario_alternate_new_loan_event \<noteq> Inl KeyError"
    by auto
  with found not_recovered swap show ?thesis by blast
qed

text \<open>
  Claim C8 as stated fails twice. With the field at index 17 absent and the alternate
  layout decodable, the handler raises \<open>IndexError\<close> without reading the alternate
  layout; and an unknown token address at index 14 does not fail decoding.
\<close>

theorem new_loan_layout_counterexample:
  "original_collateral_at scenario_constants scenario_truncated_new_loan_event 14 17
     = Inl IndexError
   \<and> original_collateral_at scenario_constants scenario_truncated_new_loan_event 13 16
     = Inr (''B'', 50)
   \<and> process_new_loan_event scenario_constants (HashstackState_init None)
       scenario_truncated_new_loan_event = Inl IndexError
   \<and> symbol_at scenario_constants scenario_alternate_new_loan_event 14 = Inl KeyError
   \<and> process_new_loan_event scenario_constants (HashstackState_init None)
       scenario_alternate_new_loan_event
     = Inr \<lparr>loan_entities = [(7, scenario_loan_7)], verbose_user = None\<rparr>"
  by (simp add: process_new_loan_event_def original_collateral_at_def
      scenario_truncated_new_loan_event_def scenario_alternate_new_loan_event_def
      scenario_loan_7_def scenario_constants_def decode_defs state_defs)

subsection \<open>Loan creation followed by repayment\<close>

lemma process_event_collateral:
  "key_name ev \<in> {''collateral_added'', ''collateral_withdrawal''} \<Longrightarrow>
   process_event c self ev = rewrite_original_collateral c self ev 9"
  by (auto simp add: process_event_def EVENTS_METHODS_MAPPING_def
      process_collateral_added_event_def process_collateral_withdrawal_event_def)

lemma replay_collateral_events:
  assumes "replay c self evs = Inr self'"
    and "\<forall>ev \<in> set evs. key_name ev \<in> {''collateral_added'', ''collateral_withdrawal''}
           \<and> int_at ev 9 = Inr loan_id"
    and "get_loan self loan_id = Inr l"
  shows "\<exists>l'. get_loan self' loan_id = Inr l' \<and> user l' = user l
           \<and> (evs = [] \<longrightarrow> original_collateral l' = original_collateral l)
           \<and> (evs \<noteq> [] \<longrightarrow> (\<exists>t a. symbol_at c (last evs) 0 = Inr t
                  \<and> decimal_at (last evs) 3 = Inr a
                  \<and> original_collateral l' = TokenAmounts_single t a))"
  using assms
proof (induction evs arbitrary: self l)
  case Nil
  then show ?case by simp
next
  case (Cons ev evs)
  from Cons.prems(1) obtain mid where
    step: "process_event c self ev = Inr mid" and rest: "replay c mid evs = Inr self'"
    by (auto simp add: rbind_Inr_iff)
  from Cons.prems(2) have kind: "key_name ev \<in> {''collateral_added'', ''collateral_withdrawal''}"
    and loan: "int_at ev 9 = Inr loan_id" by simp_all
  from step kind have "rewrite_original_collateral c self ev 9 = Inr mid"
    by (simp only: process_event_collateral)
  from rewrite_original_collateral_stored [OF this loan Cons.prems(3)]
  obtain m t a where m: "get_loan mid loan_id = Inr m" "user m = user l"
    "symbol_at c ev 0 = Inr t" "decimal_at ev 3 = Inr a"
    "original_collateral m = TokenAmounts_single t a"
    by blast
  have others: "\<forall>ev \<in> set evs. key_name ev \<in> {''collateral_added'', ''collateral_withdrawal''}
           \<and> int_at ev 9 = Inr loan_id"
    using Cons.prems(2) by simp
  from Cons.IH [OF rest others m(1)] obtain l' where
    l': "get_loan self' loan_id = Inr l'" "user l' = user m"
      "evs = [] \<longrightarrow> original_collateral l' = original_collateral m"
      "evs \<noteq> [] \<longrightarrow> (\<exists>t a. symbol_at c (last evs) 0 = Inr t
                  \<and> decimal_at (last evs) 3 = Inr a
                  \<and> original_collateral l' = TokenAmounts_single t a)"
    by blast
  show ?case
    using l' m by (cases "evs = []") simp_all
qed

text \<open>
  Claim C9. Replay a \<open>new_loan\<close> event for a loan id, then any number of
  \<open>collateral_added\<close> and \<open>collateral_withdrawal\<close> events for that id, then a
  \<open>loan_repaid\<close> event for that id whose fields decode, whose user is the user of the
  loan-creation event and whose borrowed-collateral amount is zero. The repayment
  returns, and afterwards the loan has debt zero and borrowed collateral zero at every
  token; its original collateral is the one the last collateral event wrote, or the one
  of the loan creation when there was none.
\<close>

theorem new_loan_then_loan_repaid:
  assumes "process_new_loan_event c self new_loan = Inr self1"
    and "int_at new_loan 0 = Inr loan_id"
    and "\<forall>ev \<in> set evs. key_name ev \<in> {''collateral_added'', ''collateral_withdrawal''}
           \<and> int_at ev 9 = Inr loan_id"
    and "replay c self1 evs = Inr self2"
    and "int_at loan_repaid 0 = Inr loan_id"
    and "data_at loan_repaid 1 = data_at new_loan 1"
    and "symbol_at c loan_repaid 2 = Inr debt_token"
    and "symbol_at c loan_repaid 6 = Inr borrowed_collateral_token"
    and "decimal_at loan_repaid 7 = Inr 0"
    and "int_at loan_repaid 10 = Inr category"
  shows "\<exists>self3 l1 l3.
           process_loan_repaid_event c self2 loan_repaid = Inr self3
         \<and> get_loan self1 loan_id = Inr l1
         \<and> get_loan self3 loan_id = Inr l3
         \<and> (\<forall>token. amount_of (debt l3) token = 0)
         \<and> (\<forall>token. amount_of (borrowed_collateral l3) token = 0)
         \<and> (evs = [] \<longrightarrow> original_collateral l3 = original_collateral l1)
         \<and> (evs \<noteq> [] \<longrightarrow> (\<exists>t a. symbol_at c (last evs) 0 = Inr t
                \<and> decimal_at (last evs) 3 = Inr a
                \<and> original_collateral l3 = TokenAmounts_single t a))"
proof -
  from new_loan_stored [OF assms(1,2)] obtain l1 t1 a1 where
    l1: "get_loan self1 loan_id = Inr l1" "data_at new_loan 1 = Inr (user l1)"
      "(case original_collateral_at c new_loan 14 17 of
          Inl KeyError \<Rightarrow> original_collateral_at c new_loan 13 16
        | other \<Rightarrow> other) = Inr (t1, a1)"
      "original_collateral l1 = TokenAmounts_single t1 a1"
    by blast
  from replay_collateral_events [OF assms(4) assms(3) l1(1)] obtain l2 where
    l2: "get_loan self2 loan_id = Inr l2" "user l2 = user l1"
      "evs = [] \<longrightarrow> original_collateral l2 = original_collateral l1"
      "evs \<noteq> [] \<longrightarrow> (\<exists>t a. symbol_at c (last evs) 0 = Inr t
                \<and> decimal_at (last evs) 3 = Inr a
                \<and> original_collateral l2 = TokenAmounts_single t a)"
    by blast
  have u: "data_at loan_repaid 1 = Inr (user l2)"
    using assms(6) l1(2) l2(2) by simp
  have "\<exists>t a j ev. decimal_at ev j = Inr a \<and> original_collateral l2 = TokenAmounts_single t a"
  proof (cases "evs = []")
    case True
    with l1(3,4) l2(3) layout_amount [OF l1(3)] show ?thesis by auto
  next
    case False
    with l2(4) show ?thesis by blast
  qed
  then have bounded: "\<bar>amount_of (original_collateral l2) token\<bar> < pow10 (int max_str_digits)"
    for token
    by (auto simp add: amount_of_single dest: decimal_at_bounded)
  from loan_repaid_result [OF assms(5) u l2(1) assms(7) assms(8) assms(9) assms(10) bounded]
  obtain self3 l3 where
    "process_loan_repaid_event c self2 loan_repaid = Inr self3"
    "get_loan self3 loan_id = Inr l3"
    "\<forall>token. amount_of (debt l3) token = 0"
    "\<forall>token. amount_of (borrowed_collateral l3) token = 0"
    "original_collateral l3 = original_collateral l2"
    by blast
  with l1(1) l2(3,4) show ?thesis by auto
qed

theorem new_loan_then_loan_repaid_witness:
  "\<exists>self3 l3.
      process_loan_repaid_event scenario_constants
        \<lparr>loan_entities =
          [(7, scenario_loan_7
                \<lparr>collateral := \<lparr>token_amounts = [(''A'', 0), (''B'', 80)]\<rparr>,
                 original_collateral := \<lparr>token_amounts = [(''B'', 60)]\<rparr>\<rparr>)],
         verbose_user = None\<rparr>
        scenario_loan_repaid_event = Inr self3
    \<and> get_loan self3 7 = Inr l3
    \<and> (\<forall>token. amount_of (debt l3) token = 0)
    \<and> (\<forall>token. amount_of (borrowed_collateral l3) token = 0)
    \<and> original_collateral l3 = TokenAmounts_single ''B'' 60"
proof -
  have ids: "int_at scenario_new_loan_event 0 = Inr 7"
    "int_at scenario_loan_repaid_event 0 = Inr 7"
    by (simp_all add: scenario_new_loan_event_def scenario_loan_repaid_event_def decode_defs)
  have between: "\<forall>ev \<in> set [scenario_collateral_added_event].
      key_name ev \<in> {''collateral_added'', ''collateral_withdrawal''} \<and> int_at ev 9 = Inr 7"
    by (simp add: scenario_collateral_added_event_def decode_defs)
  have u: "data_at scenario_loan_repaid_event 1 = data_at scenario_new_loan_event 1"
    by (simp add: scenario_new_loan_event_def scenario_loan_repaid_event_def data_at_def)
  have fields:
    "symbol_at scenario_constants scenario_loan_repaid_event 2 = Inr ''A''"
    "symbol_at scenario_constants scenario_loan_repaid_event 6 = Inr ''B''"
    "decimal_at scenario_loan_repaid_event 7 = Inr 0"
    "int_at scenario_loan_repaid_event 10 = Inr 3"
    by (simp_all add: scenario_loan_repaid_event_def scenario_constants_def decode_defs)
  have last: "symbol_at scenario_constants (last [scenario_collateral_added_event]) 0 = Inr ''B''"
    "decimal_at (last [scenario_collateral_added_event]) 3 = Inr 60"
    by (simp_all add: scenario_collateral_added_event_def scenario_constants_def decode_defs)
  show ?thesis
    using last
      new_loan_then_loan_repaid [OF scenario_new_loan ids(1) between scenario_collateral_added
        ids(2) u fields]
    by auto
qed

subsection \<open>Helper facts about the health factor and the scan\<close>

lemma compute_health_factor_value:
  assumes "(case collateral_usd of None \<Rightarrow> compute_collateral_usd c self ps | Some x \<Rightarrow> Inr x)
      = Inr cu"
    and "(case debt_usd of None \<Rightarrow> compute_debt_usd c self ps | Some x \<Rightarrow> Inr x) = Inr du"
  shows "compute_health_factor c self ps collateral_usd debt_usd =
     (if du = 0 then Inr Infinity
      else case decimal_fix (cu / du) of Inl e \<Rightarrow> Inl e | Inr q \<Rightarrow> Inr (Finite q))"
  using assms
  by (simp add: compute_health_factor_def rbind_def decimal_div_def)

lemma compute_health_factor_raises:
  assumes "compute_health_factor c self ps collateral_usd debt_usd = Inl e"
  shows "(collateral_usd = None \<and> compute_collateral_usd c self ps = Inl e)
       \<or> (debt_usd = None \<and> compute_debt_usd c self ps = Inl e)
       \<or> e = Overflow"
  using assms
  by (auto simp add: compute_health_factor_def rbind_def decimal_div_def
      split: sum.splits option.splits if_splits dest: decimal_fix_Inl)

lemma compute_standardized_health_factor_value:
  assumes "(case collateral_usd of None \<Rightarrow> compute_collateral_usd c self ps | Some x \<Rightarrow> Inr x)
      = Inr cu"
    and "(case debt_usd of None \<Rightarrow> compute_debt_usd c self ps | Some x \<Rightarrow> Inr x) = Inr du"
  shows "compute_standardized_health_factor c self ps collateral_usd debt_usd =
     (case decimal_fix (liquidation_threshold (debt_category self) * du) of
        Inl e \<Rightarrow> Inl e
      | Inr threshold \<Rightarrow>
          if threshold = 0 then Inr Infinity
          else case decimal_fix (cu / threshold) of Inl e \<Rightarrow> Inl e | Inr q \<Rightarrow> Inr (Finite q))"
  using assms
  by (auto simp add: compute_standardized_health_factor_def rbind_def decimal_div_def
      decimal_mul_def liquidation_threshold_def Let_def split: sum.splits)

lemma debt_tokens_iff:
  "debt_token \<in> set (map fst (filter (\<lambda>(token, token_amount). token_amount > 0) xs))
     \<longleftrightarrow> list_ex (\<lambda>(token, token_amount). token = debt_token \<and> token_amount > (0::rat)) xs"
  by (induction xs) auto

lemma liquidable_debt_loop_skip:
  "\<not> holds_positive_debt l dt \<Longrightarrow>
   liquidable_debt_loop c cp dt ((i, l) # rest) acc = liquidable_debt_loop c cp dt rest acc"
  unfolding liquidable_debt_loop.simps Let_def debt_tokens_iff holds_positive_debt_def [symmetric]
  by simp

lemma compute_health_factor_given_debt:
  "compute_debt_usd c l ps = Inr du \<Longrightarrow>
   compute_health_factor c l ps None (Some du) = compute_health_factor c l ps None None"
  by (simp add: compute_health_factor_def rbind_def split: sum.splits)

lemma liquidable_debt_loop_held:
  assumes "holds_positive_debt l dt"
    and "compute_debt_usd c l (Some cp) = Inr du"
    and "compute_health_factor c l (Some cp) None None = Inr hf"
  shows "liquidable_debt_loop c cp dt ((i, l) # rest) acc =
     (if ext_ge hf (liquidation_threshold (debt_category l))
      then liquidable_debt_loop c cp dt rest acc
      else rbind (decimal_add acc du) (\<lambda>acc. liquidable_debt_loop c cp dt rest acc))"
  unfolding liquidable_debt_loop.simps Let_def debt_tokens_iff holds_positive_debt_def [symmetric]
  using assms
  by (simp add: compute_health_factor_given_debt compute_debt_to_be_liquidated_def rbind_def
      liquidation_threshold_def)

lemma liquidable_debt_loop_sum:
  assumes "\<forall>l \<in> snd ` set store. holds_positive_debt l dt \<longrightarrow>
             \<not> isl (compute_debt_usd c l (Some cp))
           \<and> \<not> isl (compute_health_factor c l (Some cp) None None)"
  shows "liquidable_debt_loop c cp dt store acc =
     decimal_sum acc (map (\<lambda>l. value_of (compute_debt_usd c l (Some cp)))
            (filter (\<lambda>l. holds_positive_debt l dt \<and> below_threshold c cp l) (map snd store)))"
  using assms
proof (induction store arbitrary: acc)
  case Nil
  then show ?case by simp
next
  case (Cons p store)
  obtain i l where p: "p = (i, l)" by (cases p)
  have rest: "\<forall>l \<in> snd ` set store. holds_positive_debt l dt \<longrightarrow>
             \<not> isl (compute_debt_usd c l (Some cp))
           \<and> \<not> isl (compute_health_factor c l (Some cp) None None)"
    using Cons.prems by simp
  show ?case
  proof (cases "holds_positive_debt l dt")
    case False
    then show ?thesis
      using Cons.IH [OF rest]
      by (simp add: p liquidable_debt_loop_skip del: liquidable_debt_loop.simps)
  next
    case True
    with Cons.prems p obtain du hf where
      du: "compute_debt_usd c l (Some cp) = Inr du"
      and hf: "compute_health_factor c l (Some cp) None None = Inr hf"
      by (cases "compute_debt_usd c l (Some cp)";
          cases "compute_health_factor c l (Some cp) None None") auto
    have below: "below_threshold c cp l
        \<longleftrightarrow> \<not> ext_ge hf (liquidation_threshold (debt_category l))"
      by (simp add: below_threshold_def hf)
    show ?thesis
      using Cons.IH [OF rest] True
      by (simp add: p liquidable_debt_loop_held [OF True du hf] below du value_of_def
          del: liquidable_debt_loop.simps)
  qed
qed

lemmas scenario_defs =
  scenario_constants_def scenario_prices_def scenario_loan_7_def scenario_loan_8_def
  scenario_loan_9_def scenario_state_def HashstackLoanEntity_init_def TokenAmounts_init_def

lemmas usd_defs =
  compute_debt_usd_def compute_collateral_usd_def rbind_def decimal_div_def decimal_mul_def
  decimal_add_def price_of_def

lemma scenario_quotients:
  "decimal_fix (7 / 10) = Inr (7 / 10)"
  "decimal_fix (21 / 10) = Inr (21 / 10)"
  using decimal_fix_exact [of "7 / 10" 7 "- 1"] decimal_fix_exact [of "21 / 10" 21 "- 1"]
  by (simp_all add: pow10_def)

lemma scenario_rounded_quotients:
  "decimal_round (1 / 3) = 3333333333333333333333333333 / 10 ^ 28"
  "decimal_round (600 / 106) = 5660377358490566037735849057 / 10 ^ 27"
proof -
  have "decimal_fix (1 / 3) = Inr (3333333333333333333333333333 / 10 ^ 28)"
    using decimal_fix_eqI [of "- 1" "1 / 3" 3333333333333333333333333333]
    by (simp add: pow10_def)
  then show "decimal_round (1 / 3) = 3333333333333333333333333333 / 10 ^ 28"
    by (rule decimal_fix_Inr)
  have "decimal_fix (600 / 106) = Inr (5660377358490566037735849057 / 10 ^ 27)"
    using decimal_fix_eqI [of 0 "600 / 106" 5660377358490566037735849057]
    by (simp add: pow10_def)
  then show "decimal_round (600 / 106) = 5660377358490566037735849057 / 10 ^ 27"
    by (rule decimal_fix_Inr)
qed

lemma scenario_usd_values:
  "compute_collateral_usd scenario_constants scenario_loan_7 (Some scenario_prices) = Inr 210"
  "compute_debt_usd scenario_constants scenario_loan_7 (Some scenario_prices) = Inr 100"
  "compute_collateral_usd scenario_constants scenario_loan_8 (Some scenario_prices) = Inr 600"
  "compute_debt_usd scenario_constants scenario_loan_8 (Some scenario_prices) = Inr 100"
  "compute_collateral_usd scenario_constants scenario_loan_9 (Some scenario_prices) = Inr 0"
  "compute_debt_usd scenario_constants scenario_loan_9 (Some scenario_prices) = Inr 0"
  "compute_collateral_usd scenario_constants scenario_loan_7
     (Some (scenario_prices(''B'' \<mapsto> 1))) = Inr 70"
  "compute_debt_usd scenario_constants scenario_loan_7
     (Some (scenario_prices(''B'' \<mapsto> 1))) = Inr 100"
  "compute_collateral_usd scenario_constants scenario_loan_8
     (Some (scenario_prices(''B'' \<mapsto> 1))) = Inr 200"
  "compute_debt_usd scenario_constants scenario_loan_8
     (Some (scenario_prices(''B'' \<mapsto> 1))) = Inr 100"
  by (simp_all add: scenario_defs usd_defs)

lemma scenario_health_factors:
  "compute_health_factor scenario_constants scenario_loan_7
     (Some (scenario_prices(''B'' \<mapsto> 1))) None None = Inr (Finite (7 / 10))"
  "compute_health_factor scenario_constants scenario_loan_8
     (Some (scenario_prices(''B'' \<mapsto> 1))) None None = Inr (Finite 2)"
  by (simp_all add: compute_health_factor_def scenario_usd_values rbind_def decimal_div_def
      scenario_quotients)

lemma scenario_categories:
  "debt_category scenario_loan_7 = 3" "debt_category scenario_loan_8 = 1"
  by (simp_all add: scenario_loan_7_def scenario_loan_8_def)

lemma scenario_holds_positive_debt:
  "holds_positive_debt scenario_loan_7 ''A''"
  "holds_positive_debt scenario_loan_8 ''A''"
  "\<not> holds_positive_debt scenario_loan_9 ''A''"
  by (simp_all add: holds_positive_debt_def scenario_defs)

subsection \<open>The liquidable-debt scan\<close>

text \<open>
  Claim C3. \<open>compute_liquidable_debt_at_price\<close> replaces the price of \<open>collateral_token\<close>
  and, when the debt value and the health factor of every loan that holds a strictly
  positive amount of \<open>debt_token\<close> can be computed under the changed prices, returns the
  sum of \<open>debt_usd\<close> under the changed prices over exactly the loans that hold a strictly
  positive amount of \<open>debt_token\<close> and whose health factor under the changed prices is
  strictly below the threshold of their category. Every other loan adds nothing. The sum
  is the running sum of the scan: from zero, one addition of the decimal context per
  qualifying loan, in the order of the store.
\<close>

theorem compute_liquidable_debt_at_price_sum:
  assumes "\<forall>loan_entity \<in> snd ` set (loan_entities self).
             holds_positive_debt loan_entity debt_token \<longrightarrow>
               \<not> isl (compute_debt_usd c loan_entity
                        (Some (ps(collateral_token \<mapsto> collateral_token_price))))
             \<and> \<not> isl (compute_health_factor c loan_entity
                        (Some (ps(collateral_token \<mapsto> collateral_token_price))) None None)"
  shows "compute_liquidable_debt_at_price c self ps collateral_token collateral_token_price
           debt_token =
         decimal_sum 0
           (map (\<lambda>loan_entity. value_of (compute_debt_usd c loan_entity
                    (Some (ps(collateral_token \<mapsto> collateral_token_price)))))
              (filter (\<lambda>loan_entity. holds_positive_debt loan_entity debt_token
                         \<and> below_threshold c (ps(collateral_token \<mapsto> collateral_token_price))
                             loan_entity)
                 (map snd (loan_entities self))))"
  using liquidable_debt_loop_sum [OF assms, of 0]
  by (simp add: compute_liquidable_debt_at_price_def)

theorem compute_liquidable_debt_at_price_sum_witness:
  "compute_liquidable_debt_at_price scenario_constants scenario_state scenario_prices
     ''B'' 1 ''A'' = Inr 100
   \<and> below_threshold scenario_constants (scenario_prices(''B'' \<mapsto> 1)) scenario_loan_7
   \<and> \<not> below_threshold scenario_constants (scenario_prices(''B'' \<mapsto> 1)) scenario_loan_8
   \<and> \<not> holds_positive_debt scenario_loan_9 ''A''"
proof -
  have h: "\<forall>loan_entity \<in> snd ` set (loan_entities scenario_state).
             holds_positive_debt loan_entity ''A'' \<longrightarrow>
               \<not> isl (compute_debt_usd scenario_constants loan_entity
                        (Some (scenario_prices(''B'' \<mapsto> 1))))
             \<and> \<not> isl (compute_health_factor scenario_constants loan_entity
                        (Some (scenario_prices(''B'' \<mapsto> 1))) None None)"
    by (simp add: scenario_state_def scenario_usd_values scenario_health_factors
        scenario_holds_positive_debt)
  have below: "below_threshold scenario_constants (scenario_prices(''B'' \<mapsto> 1)) scenario_loan_7"
    "\<not> below_threshold scenario_constants (scenario_prices(''B'' \<mapsto> 1)) scenario_loan_8"
    by (simp_all add: below_threshold_def scenario_health_factors liquidation_threshold_def
        scenario_categories)
  show ?thesis
    using compute_liquidable_debt_at_price_sum [OF h] below
    by (simp add: scenario_state_def scenario_holds_positive_debt scenario_usd_values
        value_of_def decimal_add_def rbind_def)
qed

subsection \<open>The health factor\<close>

text \<open>
  Claim C4. With the collateral and debt values given or computed, \<open>compute_health_factor\<close>
  returns the sentinel \<open>Infinity\<close> when the debt value is zero, whatever the collateral
  value, and otherwise the quotient of collateral by debt as the decimal context forms
  it: rounded to 28 significant digits, and returned whenever the exact quotient is below
  \<open>10^999998\<close> in absolute value. The division raises nothing but the \<open>Overflow\<close> of a
  quotient beyond the exponent range: every other exception of the function is one that
  \<open>compute_collateral_usd\<close> or \<open>compute_debt_usd\<close> raised, so its own division never
  signals a division by zero.
\<close>

theorem compute_health_factor_sentinel:
  "((case collateral_usd of None \<Rightarrow> compute_collateral_usd c self ps | Some x \<Rightarrow> Inr x) = Inr cu
      \<and> (case debt_usd of None \<Rightarrow> compute_debt_usd c self ps | Some x \<Rightarrow> Inr x) = Inr du
    \<longrightarrow> (du = 0 \<longrightarrow> compute_health_factor c self ps collateral_usd debt_usd = Inr Infinity)
       \<and> (du \<noteq> 0 \<longrightarrow>
            compute_health_factor c self ps collateral_usd debt_usd
              = Inr (Finite (decimal_round (cu / du)))
          \<or> compute_health_factor c self ps collateral_usd debt_usd = Inl Overflow)
       \<and> (du \<noteq> 0 \<and> \<bar>cu / du\<bar> < pow10 999998 \<longrightarrow>
            compute_health_factor c self ps collateral_usd debt_usd
              = Inr (Finite (decimal_round (cu / du)))))
   \<and> (compute_health_factor c self ps collateral_usd debt_usd = Inl e
    \<longrightarrow> (collateral_usd = None \<and> compute_collateral_usd c self ps = Inl e)
        \<or> (debt_usd = None \<and> compute_debt_usd c self ps = Inl e)
        \<or> e = Overflow)"
proof (intro conjI impI)
  assume usd:
    "(case collateral_usd of None \<Rightarrow> compute_collateral_usd c self ps | Some x \<Rightarrow> Inr x) = Inr cu
      \<and> (case debt_usd of None \<Rightarrow> compute_debt_usd c self ps | Some x \<Rightarrow> Inr x) = Inr du"
  note result = compute_health_factor_value [OF usd [THEN conjunct1] usd [THEN conjunct2]]
  {
    assume "du = 0"
    then show "compute_health_factor c self ps collateral_usd debt_usd = Inr Infinity"
      by (simp add: result)
  }
  {
    assume "du \<noteq> 0"
    then show "compute_health_factor c self ps collateral_usd debt_usd
              = Inr (Finite (decimal_round (cu / du)))
          \<or> compute_health_factor c self ps collateral_usd debt_usd = Inl Overflow"
      using decimal_fix_cases [of "cu / du"] by (auto simp add: result)
  }
  {
    assume "du \<noteq> 0 \<and> \<bar>cu / du\<bar> < pow10 999998"
    then show "compute_health_factor c self ps collateral_usd debt_usd
              = Inr (Finite (decimal_round (cu / du)))"
      by (simp add: result decimal_fix_in_range)
  }
next
  assume "compute_health_factor c self ps collateral_usd debt_usd = Inl e"
  then show "(collateral_usd = None \<and> compute_collateral_usd c self ps = Inl e)
        \<or> (debt_usd = None \<and> compute_debt_usd c self ps = Inl e)
        \<or> e = Overflow"
    by (rule compute_health_factor_raises)
qed

theorem compute_health_factor_sentinel_witness:
  "compute_health_factor scenario_constants scenario_loan_9 (Some scenario_prices) None None
     = Inr Infinity
   \<and> compute_health_factor scenario_constants scenario_loan_7 (Some scenario_prices) None None
     = Inr (Finite (21 / 10))
   \<and> compute_health_factor scenario_constants scenario_loan_7 (Some scenario_prices)
       (Some 1) (Some 3)
     = Inr (Finite (3333333333333333333333333333 / 10 ^ 28))
   \<and> compute_health_factor scenario_constants scenario_loan_7 None None None = Inl TypeError
   \<and> (compute_collateral_usd scenario_constants scenario_loan_7 None = Inl TypeError
      \<or> compute_debt_usd scenario_constants scenario_loan_7 None = Inl TypeError)"
proof -
  have zero:
    "(case None of None \<Rightarrow> compute_collateral_usd scenario_constants scenario_loan_9
          (Some scenario_prices) | Some x \<Rightarrow> Inr x) = Inr 0
     \<and> (case None of None \<Rightarrow> compute_debt_usd scenario_constants scenario_loan_9
          (Some scenario_prices) | Some x \<Rightarrow> Inr x) = Inr 0"
    by (simp add: scenario_usd_values)
  have positive:
    "(case None of None \<Rightarrow> compute_collateral_usd scenario_constants scenario_loan_7
          (Some scenario_prices) | Some x \<Rightarrow> Inr x) = Inr 210
     \<and> (case None of None \<Rightarrow> compute_debt_usd scenario_constants scenario_loan_7
          (Some scenario_prices) | Some x \<Rightarrow> Inr x) = Inr 100"
    by (simp add: scenario_usd_values)
  have given:
    "(case Some 1 of None \<Rightarrow> compute_collateral_usd scenario_constants scenario_loan_7
          (Some scenario_prices) | Some x \<Rightarrow> Inr x) = Inr 1
     \<and> (case Some 3 of None \<Rightarrow> compute_debt_usd scenario_constants scenario_loan_7
          (Some scenario_prices) | Some x \<Rightarrow> Inr x) = Inr 3"
    by simp
  have failing: "compute_health_factor scenario_constants scenario_loan_7 None None None
      = Inl TypeError"
    by (simp add: scenario_defs usd_defs compute_health_factor_def)
  have not_overflow: "TypeError \<noteq> Overflow" by simp
  have range: "(100 :: rat) \<noteq> 0 \<and> \<bar>210 / 100 :: rat\<bar> < pow10 999998"
    "(3 :: rat) \<noteq> 0 \<and> \<bar>1 / 3 :: rat\<bar> < pow10 999998"
    by (intro conjI small_in_range; simp)+
  have exact: "decimal_round (210 / 100) = 21 / 10"
    using decimal_fix_Inr [OF scenario_quotients(2)] by simp
  note sentinel =
    compute_health_factor_sentinel [where collateral_usd = None and debt_usd = None
      and c = scenario_constants and self = scenario_loan_9
      and ps = "Some scenario_prices" and cu = 0 and du = 0,
      THEN conjunct1, rule_format, OF zero, THEN conjunct1, rule_format, OF refl]
  note quotient =
    compute_health_factor_sentinel [where collateral_usd = None and debt_usd = None
      and c = scenario_constants and self = scenario_loan_7
      and ps = "Some scenario_prices" and cu = 210 and du = 100,
      THEN conjunct1, rule_format, OF positive, THEN conjunct2, THEN conjunct2, rule_format,
      OF range(1)]
  note rounded =
    compute_health_factor_sentinel [where collateral_usd = "Some 1" and debt_usd = "Some 3"
      and c = scenario_constants and self = scenario_loan_7
      and ps = "Some scenario_prices" and cu = 1 and du = 3,
      THEN conjunct1, rule_format, OF given, THEN conjunct2, THEN conjunct2, rule_format,
      OF range(2)]
  note raised =
    compute_health_factor_sentinel [where collateral_usd = None and debt_usd = None
      and c = scenario_constants and self = scenario_loan_7
      and ps = None and e = TypeError, THEN conjunct2, rule_format, OF failing]
  from raised not_overflow
  have "compute_collateral_usd scenario_constants scenario_loan_7 None = Inl TypeError
      \<or> compute_debt_usd scenario_constants scenario_loan_7 None = Inl TypeError"
    by blast
  with sentinel quotient [unfolded exact] rounded [unfolded scenario_rounded_quotients(1)]
    failing
  show ?thesis by (intro conjI)
qed

text \<open>
  Claim C5. The threshold is 1.06 for category 1, 1.05 for category 2 and 1.04 for any
  other value. \<open>compute_standardized_health_factor\<close> multiplies the debt value by the
  threshold of this mapping and divides the collateral value by the product, both in the
  decimal context (each result rounded to 28 significant digits, \<open>Overflow\<close> beyond the
  exponent range); it returns the sentinel \<open>Infinity\<close> when the product is zero, as it is
  when the debt value is zero. The liquidable-debt scan compares the health factor of a
  loan with the threshold of the same mapping: a loan at or above it adds nothing, a
  loan below it adds its debt value to the running total.
\<close>

theorem liquidation_threshold_mapping:
  "liquidation_threshold 1 = 106 / 100
   \<and> liquidation_threshold 2 = 105 / 100
   \<and> (category \<noteq> 1 \<and> category \<noteq> 2 \<longrightarrow> liquidation_threshold category = 104 / 100)
   \<and> ((case collateral_usd of None \<Rightarrow> compute_collateral_usd c self ps | Some x \<Rightarrow> Inr x) = Inr cu
      \<and> (case debt_usd of None \<Rightarrow> compute_debt_usd c self ps | Some x \<Rightarrow> Inr x) = Inr du
    \<longrightarrow> (du = 0
          \<longrightarrow> compute_standardized_health_factor c self ps collateral_usd debt_usd
                = Inr Infinity)
       \<and> (compute_standardized_health_factor c self ps collateral_usd debt_usd
            = Inr (if decimal_round (liquidation_threshold (debt_category self) * du) = 0
                   then Infinity
                   else Finite (decimal_round
                     (cu / decimal_round (liquidation_threshold (debt_category self) * du))))
          \<or> compute_standardized_health_factor c self ps collateral_usd debt_usd
            = Inl Overflow)
       \<and> (\<bar>liquidation_threshold (debt_category self) * du\<bar> < pow10 999998
            \<and> \<bar>cu / decimal_round (liquidation_threshold (debt_category self) * du)\<bar>
                < pow10 999998
          \<longrightarrow> compute_standardized_health_factor c self ps collateral_usd debt_usd
            = Inr (if decimal_round (liquidation_threshold (debt_category self) * du) = 0
                   then Infinity
                   else Finite (decimal_round
                     (cu / decimal_round (liquidation_threshold (debt_category self) * du))))))
   \<and> (holds_positive_debt loan_entity debt_token
      \<and> compute_debt_usd c loan_entity (Some changed_prices) = Inr du'
      \<and> compute_health_factor c loan_entity (Some changed_prices) None None = Inr health_factor
    \<longrightarrow> liquidable_debt_loop c changed_prices debt_token ((loan_id, loan_entity) # rest)
            running_total
          = (if ext_ge health_factor (liquidation_threshold (debt_category loan_entity))
             then liquidable_debt_loop c changed_prices debt_token rest running_total
             else rbind (decimal_add running_total du') (\<lambda>running_total.
                    liquidable_debt_loop c changed_prices debt_token rest running_total)))"
proof -
  have mapping: "liquidation_threshold 1 = 106 / 100" "liquidation_threshold 2 = 105 / 100"
    "category \<noteq> 1 \<and> category \<noteq> 2 \<longrightarrow> liquidation_threshold category = 104 / 100"
    by (simp_all add: liquidation_threshold_def)
  have standardized:
    "(du = 0
          \<longrightarrow> compute_standardized_health_factor c self ps collateral_usd debt_usd
                = Inr Infinity)
       \<and> (compute_standardized_health_factor c self ps collateral_usd debt_usd
            = Inr (if decimal_round (liquidation_threshold (debt_category self) * du) = 0
                   then Infinity
                   else Finite (decimal_round
                     (cu / decimal_round (liquidation_threshold (debt_category self) * du))))
          \<or> compute_standardized_health_factor c self ps collateral_usd debt_usd
            = Inl Overflow)
       \<and> (\<bar>liquidation_threshold (debt_category self) * du\<bar> < pow10 999998
            \<and> \<bar>cu / decimal_round (liquidation_threshold (debt_category self) * du)\<bar>
                < pow10 999998
          \<longrightarrow> compute_standardized_health_factor c self ps collateral_usd debt_usd
            = Inr (if decimal_round (liquidation_threshold (debt_category self) * du) = 0
                   then Infinity
                   else Finite (decimal_round
                     (cu / decimal_round (liquidation_threshold (debt_category self) * du)))))"
    if usd:
      "(case collateral_usd of None \<Rightarrow> compute_collateral_usd c self ps | Some x \<Rightarrow> Inr x) = Inr cu
      \<and> (case debt_usd of None \<Rightarrow> compute_debt_usd c self ps | Some x \<Rightarrow> Inr x) = Inr du"
  proof -
    define product where "product = liquidation_threshold (debt_category self) * du"
    define threshold where "threshold = decimal_round product"
    note result = compute_standardized_health_factor_value
      [OF usd [THEN conjunct1] usd [THEN conjunct2], folded product_def]
    have zero: "compute_standardized_health_factor c self ps collateral_usd debt_usd
                = Inr Infinity" if "du = 0"
      using that by (simp add: result product_def)
    have cases: "compute_standardized_health_factor c self ps collateral_usd debt_usd
            = Inr (if threshold = 0 then Infinity
                   else Finite (decimal_round (cu / threshold)))
          \<or> compute_standardized_health_factor c self ps collateral_usd debt_usd
            = Inl Overflow"
      using decimal_fix_cases [of product] decimal_fix_cases [of "cu / threshold"]
      by (auto simp add: result threshold_def)
    have in_range: "compute_standardized_health_factor c self ps collateral_usd debt_usd
            = Inr (if threshold = 0 then Infinity
                   else Finite (decimal_round (cu / threshold)))"
      if "\<bar>product\<bar> < pow10 999998 \<and> \<bar>cu / threshold\<bar> < pow10 999998"
      using that by (simp add: result threshold_def decimal_fix_in_range)
    from zero cases in_range show ?thesis
      unfolding threshold_def product_def by blast
  qed
  have scan:
    "liquidable_debt_loop c changed_prices debt_token ((loan_id, loan_entity) # rest)
            running_total
          = (if ext_ge health_factor (liquidation_threshold (debt_category loan_entity))
             then liquidable_debt_loop c changed_prices debt_token rest running_total
             else rbind (decimal_add running_total du') (\<lambda>running_total.
                    liquidable_debt_loop c changed_prices debt_token rest running_total))"
    if "holds_positive_debt loan_entity debt_token
      \<and> compute_debt_usd c loan_entity (Some changed_prices) = Inr du'
      \<and> compute_health_factor c loan_entity (Some changed_prices) None None = Inr health_factor"
    using that by (intro liquidable_debt_loop_held) simp_all
  from mapping standardized scan show ?thesis by blast
qed

theorem liquidation_threshold_mapping_witness:
  "liquidation_threshold 3 = 104 / 100
   \<and> compute_standardized_health_factor scenario_constants scenario_loan_8
        (Some scenario_prices) None None
      = Inr (Finite (5660377358490566037735849057 / 10 ^ 27))
   \<and> compute_standardized_health_factor scenario_constants scenario_loan_9
        (Some scenario_prices) None None = Inr Infinity
   \<and> liquidable_debt_loop scenario_constants (scenario_prices(''B'' \<mapsto> 1)) ''A''
        [(7, scenario_loan_7)] 0 = Inr 100"
proof -
  have other: "(3 :: int) \<noteq> 1 \<and> (3 :: int) \<noteq> 2" by simp
  have loan_8:
    "(case None of None \<Rightarrow> compute_collateral_usd scenario_constants scenario_loan_8
          (Some scenario_prices) | Some x \<Rightarrow> Inr x) = Inr 600
     \<and> (case None of None \<Rightarrow> compute_debt_usd scenario_constants scenario_loan_8
          (Some scenario_prices) | Some x \<Rightarrow> Inr x) = Inr 100"
    by (simp add: scenario_usd_values)
  have loan_9:
    "(case None of None \<Rightarrow> compute_collateral_usd scenario_constants scenario_loan_9
          (Some scenario_prices) | Some x \<Rightarrow> Inr x) = Inr 0
     \<and> (case None of None \<Rightarrow> compute_debt_usd scenario_constants scenario_loan_9
          (Some scenario_prices) | Some x \<Rightarrow> Inr x) = Inr 0"
    by (simp add: scenario_usd_values)
  have loan_7: "holds_positive_debt scenario_loan_7 ''A''
      \<and> compute_debt_usd scenario_constants scenario_loan_7
          (Some (scenario_prices(''B'' \<mapsto> 1))) = Inr 100
      \<and> compute_health_factor scenario_constants scenario_loan_7
          (Some (scenario_prices(''B'' \<mapsto> 1))) None None = Inr (Finite (7 / 10))"
    by (simp add: scenario_usd_values scenario_health_factors scenario_holds_positive_debt)
  have product: "liquidation_threshold (debt_category scenario_loan_8) * 100 = 106"
    by (simp add: liquidation_threshold_def scenario_categories)
  have threshold: "decimal_round 106 = 106" by simp
  have range: "\<bar>liquidation_threshold (debt_category scenario_loan_8) * 100\<bar> < pow10 999998
      \<and> \<bar>600 / decimal_round (liquidation_threshold (debt_category scenario_loan_8) * 100)\<bar>
          < pow10 999998"
    unfolding product threshold by (intro conjI small_in_range; simp)
  note default =
    liquidation_threshold_mapping [where category = 3,
      THEN conjunct2, THEN conjunct2, THEN conjunct1, rule_format, OF other]
  note standardized =
    liquidation_threshold_mapping [where collateral_usd = None
      and debt_usd = None and c = scenario_constants and self = scenario_loan_8
      and ps = "Some scenario_prices" and cu = 600 and du = 100,
      THEN conjunct2, THEN conjunct2, THEN conjunct2, THEN conjunct1, rule_format, OF loan_8,
      THEN conjunct2, THEN conjunct2, rule_format, OF range,
      unfolded product threshold scenario_rounded_quotients(2)]
  note sentinel =
    liquidation_threshold_mapping [where collateral_usd = None
      and debt_usd = None and c = scenario_constants and self = scenario_loan_9
      and ps = "Some scenario_prices" and cu = 0 and du = 0,
      THEN conjunct2, THEN conjunct2, THEN conjunct2, THEN conjunct1, rule_format, OF loan_9,
      THEN conjunct1, rule_format, OF refl]
  note scan =
    liquidation_threshold_mapping [where c = scenario_constants
      and loan_entity = scenario_loan_7 and debt_token = "''A''"
      and changed_prices = "scenario_prices(''B'' \<mapsto> 1)" and du' = 100
      and health_factor = "Finite (7 / 10)"
      and loan_id = 7 and rest = "[]" and running_total = 0,
      THEN conjunct2, THEN conjunct2, THEN conjunct2, THEN conjunct2, rule_format, OF loan_7]
  have "liquidable_debt_loop scenario_constants (scenario_prices(''B'' \<mapsto> 1)) ''A''
        [(7, scenario_loan_7)] 0 = Inr 100"
    unfolding scan
    by (simp add: liquidation_threshold_def scenario_categories decimal_add_def rbind_def)
  with default standardized sentinel show ?thesis by simp
qed

subsection \<open>Active users and active borrowers\<close>

text \<open>
  Claim C10. The number of active borrowers is at most the number of active users: both
  count a set of users, and every user counted as an active borrower is counted as an
  active user.
\<close>

theorem active_borrowers_le_active_users:
  "compute_number_of_active_borrowers self \<le> compute_number_of_active_users self
   \<and> set (map user (filter has_debt (map snd (loan_entities self))))
       \<subseteq> set (map user (filter (\<lambda>loan_entity. has_collateral loan_entity \<or> has_debt loan_entity)
                         (map snd (loan_entities self))))"
proof -
  have subset: "set (map user (filter has_debt (map snd (loan_entities self))))
       \<subseteq> set (map user (filter (\<lambda>loan_entity. has_collateral loan_entity \<or> has_debt loan_entity)
                         (map snd (loan_entities self))))"
    by auto
  then have "card (set (map user (filter has_debt (map snd (loan_entities self)))))
       \<le> card (set (map user (filter (\<lambda>loan_entity. has_collateral loan_entity \<or> has_debt loan_entity)
                         (map snd (loan_entities self)))))"
    by (rule card_mono [rotated]) simp
  with subset show ?thesis
    by (simp add: compute_number_of_active_borrowers_def compute_number_of_active_users_def)
qed

theorem active_borrowers_le_active_users_witness:
  "compute_number_of_active_borrowers scenario_state = 1
   \<and> compute_number_of_active_users scenario_state = 1"
proof -
  have "compute_number_of_active_borrowers scenario_state = 1"
    by (simp add: compute_number_of_active_borrowers_def scenario_defs has_debt_def)
  moreover have "0 < compute_number_of_active_users scenario_state
      \<longrightarrow> compute_number_of_active_users scenario_state = 1"
    by (simp add: compute_number_of_active_users_def scenario_defs has_debt_def
        has_collateral_def)
  ultimately show ?thesis
    using active_borrowers_le_active_users [of scenario_state] by simp
qed

end
